(* ===== verification/Prelude.thy ===== *)
theory Prelude
  imports Complex_Main "HOL-Library.Multiset"
begin

text \<open>
  Shared vocabulary of the development: the collections of rewrite rules the
  component theories fill, the type names of the model, and generic lemmas on
  lists and association lists that several components use.
\<close>

named_theorems js_simps \<open>evaluation rules of the JavaScript number model\<close>
named_theorems band_simps \<open>evaluation rules of the band aggregator\<close>

type_synonym html = string

text \<open>
  An insertion-ordered association list: the model of a JavaScript object
  whose keys are added one at a time.  Appending a value to the list stored
  under a key, creating the entry at the end when the key is new, is what
  \<^verbatim>\<open>if (!o[k]) o[k] = []; o[k].push(v)\<close> does.
\<close>

fun push_at :: "'k \<Rightarrow> 'v \<Rightarrow> ('k \<times> 'v list) list \<Rightarrow> ('k \<times> 'v list) list" where
  "push_at k v [] = [(k, [v])]"
| "push_at k v ((k', vs) # ps) =
     (if k = k' then (k', vs @ [v]) # ps else (k', vs) # push_at k v ps)"

text \<open>The keys of a list in order of first occurrence (\<open>remdups\<close> keeps the last).\<close>

definition first_occurrences :: "'a list \<Rightarrow> 'a list" where
  "first_occurrences xs = rev (remdups (rev xs))"

lemma first_occurrences_snoc [simp]:
  "first_occurrences (xs @ [x]) =
     (if x \<in> set xs then first_occurrences xs else first_occurrences xs @ [x])"
  by (simp add: first_occurrences_def)

lemma first_occurrences_Nil [simp]: "first_occurrences [] = []"
  by (simp add: first_occurrences_def)

lemma set_first_occurrences [simp]: "set (first_occurrences xs) = set xs"
  by (simp add: first_occurrences_def)

lemma distinct_first_occurrences [simp]: "distinct (first_occurrences xs)"
  by (simp add: first_occurrences_def)

lemma map_fst_push_at [simp]:
  "map fst (push_at k v ps) = (if k \<in> set (map fst ps) then map fst ps else map fst ps @ [k])"
  by (induction ps) force+

lemma distinct_push_at [intro]:
  "distinct (map fst ps) \<Longrightarrow> distinct (map fst (push_at k v ps))"
  by simp

lemma map_of_push_at [simp]:
  "map_of (push_at k v ps) =
     (map_of ps)(k \<mapsto> (case map_of ps k of None \<Rightarrow> [v] | Some vs \<Rightarrow> vs @ [v]))"
  by (induction ps) (auto simp: fun_eq_iff)

lemma mset_concat_push_at [simp]:
  "mset (concat (map snd (push_at k v ps))) = add_mset v (mset (concat (map snd ps)))"
  by (induction ps) auto

lemma length_filter_le_one [intro]:
  "length xs \<le> 1 \<Longrightarrow> length (filter P xs) \<le> 1"
  by (meson le_trans length_filter_le)

lemma map_insort_key:
  "map f (insort_key (\<lambda>x. g (f x)) x ys) = insort_key g (f x) (map f ys)"
  by (induction ys) auto

lemma map_sort_key [simp]:
  "map f (sort_key (\<lambda>x. g (f x)) xs) = sort_key g (map f xs)"
  by (induction xs) (auto simp: map_insort_key)

lemma mset_concat_map:
  "mset (concat (map f xs)) = (\<Sum>x\<in>#mset xs. mset (f x))"
  by (induction xs) auto

text \<open>An association list with distinct keys is determined by its key order
  and its lookup function.\<close>

lemma map_of_rebuild:
  "distinct (map fst xs) \<Longrightarrow> map (\<lambda>k. (k, the (map_of xs k))) (map fst xs) = xs"
proof (induction xs)
  case (Cons p xs)
  obtain a b where p: "p = (a, b)" by fastforce
  have "map (\<lambda>k. (k, the (map_of (p # xs) k))) (map fst xs) = map (\<lambda>k. (k, the (map_of xs k))) (map fst xs)"
    using Cons.prems p by (intro map_cong) auto
  with Cons p show ?case by simp
qed simp

end
