(* ===== verification/JsNumber.thy ===== *)
theory JsNumber
  imports Prelude
begin

text \<open>
  The JavaScript values the program computes with.  A Number is a real value,
  \<open>NaN\<close>, or one of the two infinities; arithmetic on finite values is exact
  (rounding to the nearest double is abstracted, and \<open>-0\<close> is identified with
  \<open>+0\<close>), while the special values follow ECMAScript's Number::add,
  Number::multiply, Number::divide and the relational comparison, which is
  false whenever \<open>NaN\<close> takes part.  The JSON scalars of a GeoJSON property
  are \<open>jsval\<close>; \<open>to_number\<close> is ECMAScript's ToNumber on them, with the
  StringToNumber grammar (whitespace, sign, decimals, exponent, Infinity,
  0x/0o/0b literals).
\<close>

datatype jsnum = Num real | NaN | PosInf | NegInf

text \<open>The exception an event handler can raise and leave uncaught.\<close>

datatype js_error = TypeError

datatype jsval = JUndefined | JNull | JBool bool | JNumber jsnum | JString string

subsection \<open>Arithmetic\<close>

definition inf_of_sign :: "real \<Rightarrow> jsnum" where
  "inf_of_sign s = (if 0 < s then PosInf else NegInf)"

lemma inf_of_sign_special [simp, js_simps]:
  "inf_of_sign s \<noteq> Num a" "inf_of_sign s \<noteq> NaN"
  by (simp_all add: inf_of_sign_def)

fun jsgn :: "jsnum \<Rightarrow> real" where
  "jsgn (Num a) = sgn a"
| "jsgn PosInf = 1"
| "jsgn NegInf = -1"
| "jsgn NaN = 0"

instantiation jsnum :: "{zero, one, uminus, plus, minus, times, inverse, ord}"
begin

definition zero_jsnum :: jsnum where "zero_jsnum = Num 0"

definition one_jsnum :: jsnum where "one_jsnum = Num 1"

fun uminus_jsnum :: "jsnum \<Rightarrow> jsnum" where
  "uminus_jsnum (Num a) = Num (- a)"
| "uminus_jsnum PosInf = NegInf"
| "uminus_jsnum NegInf = PosInf"
| "uminus_jsnum NaN = NaN"

fun plus_jsnum :: "jsnum \<Rightarrow> jsnum \<Rightarrow> jsnum" where
  "plus_jsnum NaN _ = NaN"
| "plus_jsnum _ NaN = NaN"
| "plus_jsnum PosInf NegInf = NaN"
| "plus_jsnum NegInf PosInf = NaN"
| "plus_jsnum PosInf _ = PosInf"
| "plus_jsnum NegInf _ = NegInf"
| "plus_jsnum _ PosInf = PosInf"
| "plus_jsnum _ NegInf = NegInf"
| "plus_jsnum (Num a) (Num b) = Num (a + b)"

definition minus_jsnum :: "jsnum \<Rightarrow> jsnum \<Rightarrow> jsnum" where
  "minus_jsnum x y = x + (- y)"

fun times_jsnum :: "jsnum \<Rightarrow> jsnum \<Rightarrow> jsnum" where
  "times_jsnum NaN _ = NaN"
| "times_jsnum _ NaN = NaN"
| "times_jsnum (Num a) (Num b) = Num (a * b)"
| "times_jsnum x y =
     (if jsgn x * jsgn y = 0 then NaN else inf_of_sign (jsgn x * jsgn y))"

text \<open>A zero divisor is \<open>+0\<close>: the program never divides by \<open>-0\<close>.\<close>

fun divide_jsnum :: "jsnum \<Rightarrow> jsnum \<Rightarrow> jsnum" where
  "divide_jsnum NaN _ = NaN"
| "divide_jsnum _ NaN = NaN"
| "divide_jsnum (Num a) (Num b) =
     (if b = 0 then (if a = 0 then NaN else inf_of_sign a) else Num (a / b))"
| "divide_jsnum (Num a) _ = Num 0"
| "divide_jsnum x (Num b) = (if b = 0 then x else inf_of_sign (jsgn x * b))"
| "divide_jsnum _ _ = NaN"

definition inverse_jsnum :: "jsnum \<Rightarrow> jsnum" where
  "inverse_jsnum x = Num 1 div x"

fun less_jsnum :: "jsnum \<Rightarrow> jsnum \<Rightarrow> bool" where
  "less_jsnum (Num a) (Num b) = (a < b)"
| "less_jsnum NegInf y = (y = PosInf \<or> (\<exists>b. y = Num b))"
| "less_jsnum (Num a) PosInf = True"
| "less_jsnum _ _ = False"

fun less_eq_jsnum :: "jsnum \<Rightarrow> jsnum \<Rightarrow> bool" where
  "less_eq_jsnum NaN _ = False"
| "less_eq_jsnum _ NaN = False"
| "less_eq_jsnum x y = (x = y \<or> x < y)"

instance ..

end

text \<open>\<^verbatim>\<open>Math.floor\<close>: the special values are their own floor.\<close>

fun js_floor :: "jsnum \<Rightarrow> jsnum" where
  "js_floor (Num a) = Num (of_int \<lfloor>a\<rfloor>)"
| "js_floor x = x"

text \<open>ToBoolean of a Number, and the value of \<open>a || b\<close> on Numbers.\<close>

fun js_truthy :: "jsnum \<Rightarrow> bool" where
  "js_truthy (Num a) = (a \<noteq> 0)"
| "js_truthy NaN = False"
| "js_truthy _ = True"

definition js_or :: "jsnum \<Rightarrow> jsnum \<Rightarrow> jsnum" where
  "js_or a b = (if js_truthy a then a else b)"

fun js_finite :: "jsnum \<Rightarrow> bool" where
  "js_finite (Num _) = True"
| "js_finite _ = False"

lemma zero_jsnum_Num [simp, js_simps]: "(0::jsnum) = Num 0"
  and one_jsnum_Num [simp, js_simps]: "(1::jsnum) = Num 1"
  by (simp_all add: zero_jsnum_def one_jsnum_def)

lemma minus_jsnum_Num [simp, js_simps]: "Num a - Num b = Num (a - b)"
  by (simp add: minus_jsnum_def)

lemma less_jsnum_zero_iff [js_simps]:
  "(Num 0 < x) = (x = PosInf \<or> (\<exists>a. x = Num a \<and> 0 < a))"
  by (cases x) auto

lemma js_or_Num_zero [simp, js_simps]:
  "js_or x (Num 0) = (case x of NaN \<Rightarrow> Num 0 | _ \<Rightarrow> x)"
  by (cases x) (auto simp: js_or_def)

lemma js_or_not_NaN [js_simps]: "b \<noteq> NaN \<Longrightarrow> js_or a b \<noteq> NaN"
  by (cases a) (auto simp: js_or_def)

subsection \<open>Sums of finite values\<close>

text \<open>\<^verbatim>\<open>xs.reduce((a, b) => a + b, s)\<close> on finite values is the real sum.\<close>

lemma foldl_plus_Num [simp, js_simps]:
  "foldl (+) (Num s) (map Num xs) = Num (s + sum_list xs)"
  by (induction xs arbitrary: s) (auto simp: algebra_simps)

lemma foldl_PosInf_absorbs:
  "\<forall>x\<in>set xs. x = PosInf \<or> js_finite x \<Longrightarrow> foldl (+) PosInf xs = PosInf"
proof (induction xs)
  case (Cons x xs)
  then have "PosInf + x = PosInf" by (cases x) auto
  with Cons show ?case by simp
qed simp

lemma foldl_plus_PosInf:
  "PosInf \<in> set xs \<Longrightarrow> \<forall>x\<in>set xs. x = PosInf \<or> js_finite x \<Longrightarrow> js_finite s \<Longrightarrow>
   foldl (+) s xs = PosInf"
proof (induction xs arbitrary: s)
  case (Cons x xs)
  show ?case
  proof (cases "x = PosInf")
    case True
    with Cons.prems have "s + x = PosInf" by (cases s) auto
    with Cons.prems(2) show ?thesis by (simp add: foldl_PosInf_absorbs)
  next
    case False
    with Cons.prems have "js_finite (s + x)" and "PosInf \<in> set xs"
      by (cases s; cases x; auto)+
    with Cons.IH Cons.prems(2) show ?thesis by simp
  qed
qed simp

subsection \<open>Number.prototype.toFixed read back by parseFloat\<close>

text \<open>
  \<^verbatim>\<open>parseFloat(x.toFixed(k))\<close>: for \<open>|x| < 10^21\<close> the nearest multiple of
  \<open>10^-k\<close>, ties away from zero (toFixed rounds \<open>|x|\<close> with ties up and puts
  the sign back); beyond that toFixed prints \<open>x\<close> itself.  NaN and the
  infinities print as \<open>NaN\<close>, \<open>Infinity\<close>, \<open>-Infinity\<close> and read back
  unchanged.
\<close>

definition round_half_away :: "nat \<Rightarrow> real \<Rightarrow> real" where
  "round_half_away k x = sgn x * of_int \<lfloor>\<bar>x\<bar> * 10 ^ k + 1 / 2\<rfloor> / 10 ^ k"

fun fixed_round :: "nat \<Rightarrow> jsnum \<Rightarrow> jsnum" where
  "fixed_round k (Num a) = (if 10 ^ 21 \<le> \<bar>a\<bar> then Num a else Num (round_half_away k a))"
| "fixed_round k x = x"

lemma round_half_away_abs:
  "\<bar>\<bar>x\<bar> * 10 ^ k - of_int \<lfloor>\<bar>x\<bar> * 10 ^ k + 1 / 2\<rfloor>\<bar> \<le> 1 / 2"
  by linarith

lemma round_half_away_err:
  "\<bar>round_half_away k x - x\<bar> \<le> 1 / (2 * 10 ^ k)"
proof -
  let ?y = "\<bar>x\<bar> * 10 ^ k" and ?n = "of_int \<lfloor>\<bar>x\<bar> * 10 ^ k + 1 / 2\<rfloor> :: real"
  have p: "(0::real) < 10 ^ k" by simp
  have e: "\<bar>?n - ?y\<bar> \<le> 1 / 2" using round_half_away_abs[of x k] by linarith
  have x: "x = sgn x * \<bar>x\<bar>" by (simp add: sgn_mult_abs)
  have "round_half_away k x - x = sgn x * ((?n - ?y) / 10 ^ k)"
    using p by (subst (2) x) (simp add: round_half_away_def field_simps)
  then have "\<bar>round_half_away k x - x\<bar> = \<bar>sgn x\<bar> * (\<bar>?n - ?y\<bar> / 10 ^ k)"
    by (simp add: abs_mult)
  also have "\<dots> \<le> \<bar>?n - ?y\<bar> / 10 ^ k"
    by (simp add: abs_sgn_eq mult_left_le_one_le)
  also have "\<dots> \<le> (1 / 2) / 10 ^ k"
    by (rule divide_right_mono [OF e]) simp
  also have "\<dots> = 1 / (2 * 10 ^ k)" by simp
  finally show ?thesis .
qed

lemma fixed_round_Num_err [js_simps]:
  "\<exists>r. fixed_round k (Num a) = Num r \<and> \<bar>r - a\<bar> \<le> 1 / (2 * 10 ^ k)"
  using round_half_away_err[of k a] by auto

lemma fixed_round_finite_iff [simp, js_simps]: "js_finite (fixed_round k x) = js_finite x"
  by (cases x) auto

subsection \<open>ToNumber\<close>

definition js_ws :: "char \<Rightarrow> bool" where
  "js_ws c = (of_char c \<in> {9, 10, 11, 12, 13, 32 :: nat})"

definition trim_ws :: "string \<Rightarrow> string" where
  "trim_ws s = rev (dropWhile js_ws (rev (dropWhile js_ws s)))"

definition is_digit :: "char \<Rightarrow> bool" where
  "is_digit c = (48 \<le> (of_char c :: nat) \<and> (of_char c :: nat) \<le> 57)"

text \<open>The value of a digit in base 2, 8, 10 or 16, if it is one.\<close>

definition digit_in :: "nat \<Rightarrow> char \<Rightarrow> nat option" where
  "digit_in b c =
     (let n = of_char c :: nat;
          d = (if 48 \<le> n \<and> n \<le> 57 then n - 48
               else if 97 \<le> n \<and> n \<le> 102 then n - 87
               else if 65 \<le> n \<and> n \<le> 70 then n - 55 else 99)
      in if d < b then Some d else None)"

fun digits_value :: "nat \<Rightarrow> nat \<Rightarrow> string \<Rightarrow> nat option" where
  "digits_value b acc [] = Some acc"
| "digits_value b acc (c # cs) =
     (case digit_in b c of None \<Rightarrow> None | Some d \<Rightarrow> digits_value b (b * acc + d) cs)"

definition dec_value :: "string \<Rightarrow> nat" where
  "dec_value ds = (case digits_value 10 0 ds of Some n \<Rightarrow> n | None \<Rightarrow> 0)"

text \<open>ExponentPart after the mantissa: empty, or e/E, an optional sign, digits.\<close>

definition parse_exponent :: "string \<Rightarrow> int option" where
  "parse_exponent r =
     (case r of
        [] \<Rightarrow> Some 0
      | e # r' \<Rightarrow>
          if e \<noteq> CHR ''e'' \<and> e \<noteq> CHR ''E'' then None
          else (let (sg, ds) = (case r' of
                                   s # ds \<Rightarrow> if s = CHR ''-'' then (-1, ds)
                                             else if s = CHR ''+'' then (1, ds) else (1, r')
                                 | [] \<Rightarrow> (1, []))
                in if ds \<noteq> [] \<and> list_all is_digit ds then Some (sg * int (dec_value ds)) else None))"

definition scale10 :: "real \<Rightarrow> int \<Rightarrow> real" where
  "scale10 m e = (if 0 \<le> e then m * 10 ^ nat e else m / 10 ^ nat (- e))"

text \<open>StrUnsignedDecimalLiteral: Infinity, or digits with an optional point and fraction, then an exponent.\<close>

definition parse_unsigned_decimal :: "string \<Rightarrow> jsnum option" where
  "parse_unsigned_decimal s =
     (if s = ''Infinity'' then Some PosInf
      else
        let ip = takeWhile is_digit s; r1 = dropWhile is_digit s;
            (fp, r2) = (case r1 of
                          c # r \<Rightarrow> if c = CHR ''.'' then (takeWhile is_digit r, dropWhile is_digit r)
                                   else ([], r1)
                        | [] \<Rightarrow> ([], []))
        in if ip = [] \<and> fp = [] then None
           else case parse_exponent r2 of
                  None \<Rightarrow> None
                | Some e \<Rightarrow> Some (Num (scale10 (real (dec_value (ip @ fp)) / 10 ^ length fp) e)))"

definition parse_non_decimal :: "string \<Rightarrow> jsnum option" where
  "parse_non_decimal s =
     (case s of
        z # p # ds \<Rightarrow>
          if z = CHR ''0'' \<and> ds \<noteq> [] then
            (let b = (if p \<in> {CHR ''x'', CHR ''X''} then 16
                      else if p \<in> {CHR ''o'', CHR ''O''} then 8
                      else if p \<in> {CHR ''b'', CHR ''B''} then 2 else 0)
             in if b = 0 then None else map_option (\<lambda>n. Num (real n)) (digits_value b 0 ds))
          else None
      | _ \<Rightarrow> None)"

definition str_to_number :: "string \<Rightarrow> jsnum" where
  "str_to_number s =
     (let t = trim_ws s in
      if t = [] then Num 0
      else case parse_non_decimal t of
             Some n \<Rightarrow> n
           | None \<Rightarrow>
               (case t of
                  c # r \<Rightarrow>
                    if c = CHR ''-'' then (case parse_unsigned_decimal r of Some n \<Rightarrow> - n | None \<Rightarrow> NaN)
                    else if c = CHR ''+'' then (case parse_unsigned_decimal r of Some n \<Rightarrow> n | None \<Rightarrow> NaN)
                    else (case parse_unsigned_decimal t of Some n \<Rightarrow> n | None \<Rightarrow> NaN)
                | [] \<Rightarrow> NaN))"

fun to_number :: "jsval \<Rightarrow> jsnum" where
  "to_number JUndefined = NaN"
| "to_number JNull = Num 0"
| "to_number (JBool b) = (if b then Num 1 else Num 0)"
| "to_number (JNumber n) = n"
| "to_number (JString s) = str_to_number s"

subsection \<open>Decimal digit strings\<close>

lemma digits_value_append:
  "digits_value b acc (xs @ ys) =
     (case digits_value b acc xs of None \<Rightarrow> None | Some a \<Rightarrow> digits_value b a ys)"
  by (induction b acc xs rule: digits_value.induct) (auto split: option.splits)

lemma is_digit_not_special [simp]:
  "is_digit c \<Longrightarrow> c \<noteq> CHR ''-'' \<and> c \<noteq> CHR ''+'' \<and> c \<noteq> CHR ''I'' \<and> \<not> js_ws c"
  by (auto simp: is_digit_def js_ws_def)

text \<open>A non-empty string of decimal digits reads as its decimal value.\<close>

lemma parse_unsigned_decimal_digits:
  assumes "ds \<noteq> []" and "list_all is_digit ds"
  shows "parse_unsigned_decimal ds = Some (Num (real (dec_value ds)))"
proof -
  have tw: "takeWhile is_digit ds = ds" and dw: "dropWhile is_digit ds = []"
    using assms(2) by (simp_all add: list_all_iff)
  have "\<not> is_digit CHR ''I''" by (simp add: is_digit_def)
  then have inf: "ds \<noteq> ''Infinity''" using assms(2) by auto
  show ?thesis
    using assms(1) inf by (simp add: tw dw parse_unsigned_decimal_def parse_exponent_def scale10_def Let_def)
qed

text \<open>The definitions that evaluate ToNumber on a literal string by \<open>simp\<close>.\<close>

lemmas to_number_eval = str_to_number_def trim_ws_def js_ws_def parse_non_decimal_def
  parse_unsigned_decimal_def is_digit_def parse_exponent_def dec_value_def digit_in_def scale10_def

subsection \<open>Property keys\<close>

text \<open>
  A Number used as an object key is stored under its string; the key is an
  array index, and is then enumerated before all other keys in ascending
  order, when that string is the canonical form of an integer in
  \<open>[0, 2^32 - 1)\<close>.
\<close>

fun is_array_index :: "jsnum \<Rightarrow> bool" where
  "is_array_index (Num a) = (of_int \<lfloor>a\<rfloor> = a \<and> 0 \<le> a \<and> a < 2 ^ 32 - 1)"
| "is_array_index _ = False"

fun key_order :: "jsnum \<Rightarrow> real" where
  "key_order (Num a) = a"
| "key_order _ = 0"

end
