(* ===== verification/Preprocess.thy ===== *)
theory Preprocess
  imports JsNumber
begin

text \<open>
  The geometry metrics preprocessor: the \<^verbatim>\<open>counties.features.forEach\<close> loop
  of the load handler (src/script.js, lines 30--39), which annotates every
  county feature with its area in square miles (one decimal), the longitude
  of its centroid, its population read from the \<^verbatim>\<open>Total Population\<close>
  property with \<^verbatim>\<open>Number(..) || 0\<close>, and its density (two decimals).
  Geometry is a type parameter: the two functions of the turf library the
  loop calls are an interface record, so every lemma holds for any area and
  centroid function.
\<close>

record 'g feature_in =
  geometry :: 'g
  NAME :: jsval
  County :: jsval
  total_population :: jsval

record 'g county = "'g feature_in" +
  area_sq_miles :: jsnum
  centroid_lon :: jsnum
  population :: jsnum
  density :: jsnum

text \<open>\<^verbatim>\<open>turf.area(f)\<close> in square metres and the longitude of \<^verbatim>\<open>turf.centroid(f)\<close>.\<close>

record 'g turf =
  turf_area :: "'g \<Rightarrow> jsnum"
  turf_centroid_lon :: "'g \<Rightarrow> jsnum"

definition sq_metres_per_sq_mile :: real where
  "sq_metres_per_sq_mile = 2589988.11"

definition derive_county :: "'g turf \<Rightarrow> 'g feature_in \<Rightarrow> 'g county" where
  "derive_county T f =
     (let areaSqMiles = turf_area T (geometry f) / Num sq_metres_per_sq_mile;
          lon = turf_centroid_lon T (geometry f);
          pop = js_or (to_number (total_population f)) (Num 0);
          dens = pop / areaSqMiles
      in feature_in.extend f
           (county.fields (fixed_round 1 areaSqMiles) lon pop (fixed_round 2 dens)))"

definition preprocess :: "'g turf \<Rightarrow> 'g feature_in list \<Rightarrow> 'g county list" where
  "preprocess T fs = map (derive_county T) fs"

lemma derive_county_fields [simp]:
  "area_sq_miles (derive_county T f) = fixed_round 1 (turf_area T (geometry f) / Num sq_metres_per_sq_mile)"
  "centroid_lon (derive_county T f) = turf_centroid_lon T (geometry f)"
  "population (derive_county T f) = js_or (to_number (total_population f)) (Num 0)"
  "density (derive_county T f) =
     fixed_round 2 (js_or (to_number (total_population f)) (Num 0) /
                    (turf_area T (geometry f) / Num sq_metres_per_sq_mile))"
  "geometry (derive_county T f) = geometry f"
  "NAME (derive_county T f) = NAME f"
  "County (derive_county T f) = County f"
  "total_population (derive_county T f) = total_population f"
  by (simp_all add: derive_county_def Let_def feature_in.defs county.defs)

lemma sq_metres_per_sq_mile_pos [simp]: "0 < sq_metres_per_sq_mile"
  and sq_metres_per_sq_mile_nz [simp]: "sq_metres_per_sq_mile \<noteq> 0"
  by (simp_all add: sq_metres_per_sq_mile_def)

lemma population_not_NaN [simp]: "population (derive_county T f) \<noteq> NaN"
  by (simp split: jsnum.split)

text \<open>Sample inputs: a geometry is its turf area in square metres and its
  centroid longitude.\<close>

definition sample_turf :: "(real \<times> real) turf" where
  "sample_turf = \<lparr>turf_area = (\<lambda>g. Num (fst g)), turf_centroid_lon = (\<lambda>g. Num (snd g))\<rparr>"

definition sample_feature :: "real \<Rightarrow> real \<Rightarrow> jsval \<Rightarrow> (real \<times> real) feature_in" where
  "sample_feature a l p =
     \<lparr>geometry = (a, l), NAME = JString ''Sample'', County = JUndefined, total_population = p\<rparr>"

subsection \<open>Properties of the derived attributes\<close>

text \<open>C8: the stored area is the turf area converted to square miles and
  rounded to one decimal: it is within 0.05 square miles of the exact value.\<close>

theorem area_sq_miles_error:
  assumes "turf_area T (geometry f) = Num a"
  shows "\<exists>r. area_sq_miles (derive_county T f) = Num r \<and>
             \<bar>r - a / sq_metres_per_sq_mile\<bar> \<le> 1 / 20"
proof -
  have "turf_area T (geometry f) / Num sq_metres_per_sq_mile = Num (a / sq_metres_per_sq_mile)"
    using assms by simp
  then show ?thesis using fixed_round_Num_err[of 1 "a / sq_metres_per_sq_mile"] by simp
qed

theorem area_sq_miles_error_witness:
  "turf_area sample_turf (geometry (sample_feature 5180000 (-99.4) JNull)) = Num 5180000 \<and>
   (\<exists>r. area_sq_miles (derive_county sample_turf (sample_feature 5180000 (-99.4) JNull)) = Num r \<and>
        \<bar>r - 5180000 / sq_metres_per_sq_mile\<bar> \<le> 1 / 20)"
  using area_sq_miles_error [of sample_turf "sample_feature 5180000 (-99.4) JNull" 5180000]
  by (simp add: sample_turf_def sample_feature_def)

lemma density_zero_area:
  assumes "turf_area T (geometry f) = Num 0"
  shows "density (derive_county T f) =
           (case population (derive_county T f) of
              Num p \<Rightarrow> if p = 0 then NaN else inf_of_sign p
            | x \<Rightarrow> x)"
proof -
  have "turf_area T (geometry f) / Num sq_metres_per_sq_mile = Num 0" using assms by simp
  then show ?thesis
    by (simp only: derive_county_fields)
       (auto simp: inf_of_sign_def split: jsnum.split)
qed

text \<open>C7: the density is never guarded.  A county whose turf area is exactly 0
  (then \<^verbatim>\<open>areaSqMiles\<close> is 0 in doubles as well) gets a density that is
  not finite: NaN when its population is 0 and an infinity otherwise, where the
  spec asks for 0.\<close>

theorem density_zero_area_not_finite:
  assumes "turf_area T (geometry f) = Num 0"
  shows "\<not> js_finite (density (derive_county T f)) \<and>
         (density (derive_county T f) = NaN \<longleftrightarrow> population (derive_county T f) = Num 0)"
proof -
  have "population (derive_county T f) \<noteq> NaN" by (rule population_not_NaN)
  then show ?thesis
    using density_zero_area [OF assms]
    by (cases "population (derive_county T f)") (auto simp: inf_of_sign_def simp del: derive_county_fields)
qed

theorem density_zero_area_not_finite_witness:
  "turf_area sample_turf (geometry (sample_feature 0 (-99.4) (JString ''1200''))) = Num 0 \<and>
   \<not> js_finite (density (derive_county sample_turf (sample_feature 0 (-99.4) (JString ''1200''))))"
proof -
  have a: "turf_area sample_turf (geometry (sample_feature 0 (-99.4) (JString ''1200''))) = Num 0"
    by (simp add: sample_turf_def sample_feature_def)
  show ?thesis using a density_zero_area_not_finite [OF a] by blast
qed

end
