(* ===== verification/Legend.thy ===== *)
theory Legend
  imports JsNumber
begin

text \<open>
  The legend: \<^verbatim>\<open>updateLegend(colorMode, viewMode)\<close> (src/script.js,
  lines 203--225) builds the legend HTML from two lookup tables keyed by the
  colour mode and writes it into the legend element.  A mode that is not a key
  of the tables makes \<^verbatim>\<open>stops.forEach\<close> throw a TypeError before anything
  is written.  Numbers are printed by \<^verbatim>\<open>toLocaleString()\<close> in the en-US
  locale (digit groups of three separated by commas).
\<close>

definition legend_stops :: "string \<Rightarrow> nat list option" where
  "legend_stops m =
     (if m = ''area'' then Some [0, 500, 1000, 2000, 4000]
      else if m = ''population'' then Some [0, 10000, 50000, 200000, 1000000]
      else if m = ''density'' then Some [0, 10, 100, 500, 2000]
      else None)"

definition legend_colors :: "string \<Rightarrow> string list option" where
  "legend_colors m =
     (if m = ''area'' then Some [''#edf8fb'', ''#b2e2e2'', ''#66c2a4'', ''#238b45'', ''#00441b'']
      else if m = ''population'' then Some [''#fff5f0'', ''#fcbba1'', ''#fc9272'', ''#fb6a4a'', ''#a50f15'']
      else if m = ''density'' then Some [''#f7fcf5'', ''#c7e9c0'', ''#74c476'', ''#238b45'', ''#00441b'']
      else None)"

subsection \<open>Number.prototype.toLocaleString on integers (en-US)\<close>

definition digit_char :: "nat \<Rightarrow> char" where
  "digit_char d = char_of (48 + d)"

fun decimal_digits :: "nat \<Rightarrow> string" where
  "decimal_digits n =
     (if n < 10 then [digit_char n] else decimal_digits (n div 10) @ [digit_char (n mod 10)])"

declare decimal_digits.simps [simp del]

text \<open>Commas between groups of three digits, counted from the right.\<close>

fun group_rev :: "string \<Rightarrow> string" where
  "group_rev (a # b # c # d # rest) = a # b # c # CHR '','' # group_rev (d # rest)"
| "group_rev xs = xs"

definition locale_int :: "nat \<Rightarrow> string" where
  "locale_int n = rev (group_rev (rev (decimal_digits n)))"

subsection \<open>The legend HTML\<close>

definition upper_ascii :: "char \<Rightarrow> char" where
  "upper_ascii c =
     (let n = of_char c :: nat in if 97 \<le> n \<and> n \<le> 122 then char_of (n - 32) else c)"

text \<open>\<^verbatim>\<open>s.charAt(0).toUpperCase() + s.slice(1)\<close> (ASCII case mapping).\<close>

definition capitalize :: "string \<Rightarrow> string" where
  "capitalize s = (case s of [] \<Rightarrow> [] | c # r \<Rightarrow> upper_ascii c # r)"

definition legend_title :: "string \<Rightarrow> html" where
  \<open>legend_title m = ''<div class="legend-title">Color by '' @ capitalize m @ ''</div>''\<close>

definition legend_row :: "string \<Rightarrow> nat \<Rightarrow> html" where
  \<open>legend_row color v =
     ''<div><span class="legend-color" style="background:'' @ color @ ''"></span>''
     @ locale_int v @ ''</div>''\<close>

definition legend_note :: html where
  \<open>legend_note =
     ''<div class="legend-note">Note: Longitude bands show <strong>average county population</strong>, not population density.</div>''\<close>

definition updateLegend :: "string \<Rightarrow> string \<Rightarrow> js_error + html" where
  "updateLegend colorMode viewMode =
     (case (legend_stops colorMode, legend_colors colorMode) of
        (Some stops, Some colors) \<Rightarrow>
          Inr (legend_title colorMode
               @ concat (map (\<lambda>(v, i). legend_row (colors ! i) v) (zip stops [0..<length stops]))
               @ (if colorMode = ''population'' \<and> viewMode = ''band'' then legend_note else []))
      | _ \<Rightarrow> Inl TypeError)"

lemmas legend_eval = locale_int_def decimal_digits.simps digit_char_def char_of_eq_iff
  capitalize_def upper_ascii_def

subsection \<open>The digit printer against the digit parser\<close>

lemma decimal_digits_ne [simp]: "decimal_digits n \<noteq> []"
  by (subst decimal_digits.simps) simp

lemma is_digit_digit_char [simp]: "d < 10 \<Longrightarrow> is_digit (digit_char d)"
  by (simp add: is_digit_def digit_char_def)

lemma digit_in_digit_char [simp]: "d < 10 \<Longrightarrow> digit_in 10 (digit_char d) = Some d"
  by (simp add: digit_in_def digit_char_def Let_def)

lemma decimal_digits_all_digits: "list_all is_digit (decimal_digits n)"
  by (induction n rule: decimal_digits.induct) (subst decimal_digits.simps, simp)

lemma digits_value_decimal_digits:
  "digits_value 10 0 (decimal_digits n) = Some n"
proof (induction n rule: decimal_digits.induct)
  case (1 n)
  show ?case
  proof (cases "n < 10")
    case True
    then show ?thesis by (subst decimal_digits.simps) simp
  next
    case False
    with "1.IH" have "digits_value 10 0 (decimal_digits (n div 10)) = Some (n div 10)" by simp
    with False show ?thesis
      by (subst decimal_digits.simps) (simp add: digits_value_append)
  qed
qed

lemma updateLegend_known:
  "m \<in> {''area'', ''population'', ''density''} \<Longrightarrow> \<exists>h. updateLegend m v = Inr h"
  by (auto simp: updateLegend_def legend_stops_def legend_colors_def)

text \<open>C9: \<^verbatim>\<open>updateLegend\<close> throws exactly when the colour mode is
  not one of area, population and density.\<close>

theorem updateLegend_error:
  "(\<exists>e. updateLegend m v = Inl e) = (m \<notin> {''area'', ''population'', ''density''})"
  by (auto simp: updateLegend_def legend_stops_def legend_colors_def)

end
