(* ===== verification/Paint.thy ===== *)
theory Paint
  imports Bands Legend
begin

text \<open>
  The map's configuration: the constructor's options and the attribution
  control (src/script.js, lines 1--17), and the paint expressions of the load
  handler (lines 83--99):
  \<^verbatim>\<open>countyPaints\<close> and \<^verbatim>\<open>bandPaints\<close> map a colour mode to a MapLibre
  expression \<^verbatim>\<open>["interpolate", ["linear"], ["get", p], v1, c1, ...]\<close>,
  kept here as the property it reads and its list of stops and colours.  The
  feature properties an expression can read are the numeric properties the
  preprocessor writes on a county (lines 35--38) and those of a band feature
  (lines 72--76).  The lemmas show that the map and the legend (Legend) agree:
  the same stops with the same colours, and that the county layer is coloured
  by the very metric the bands average.
\<close>

text \<open>The map constructor's options and the attribution control added to it
  (lines 1--17).\<close>

record map_options =
  container :: string
  style :: string
  center :: "jsnum \<times> jsnum"
  zoom :: jsnum
  attributionControl :: bool

record attribution_control =
  compact :: bool
  customAttribution :: html

definition map_init :: map_options where
  "map_init =
     \<lparr>container = ''map'', style = ''https://basemaps.cartocdn.com/gl/positron-gl-style/style.json'',
      center = (Num (-98), Num 38.5), zoom = Num 4, attributionControl = False\<rparr>"

definition map_controls :: "attribution_control list" where
  \<open>map_controls =
     [\<lparr>compact = True,
       customAttribution =
         ''Map data '' @ [CHR 0xC2, CHR 0xA9] @ '' <a href="https://www.openstreetmap.org/">OpenStreetMap</a> contributors | ''
         @ ''<a href="https://googlemapsmania.blogspot.com/2025/10/county-stripes.html" target="_blank">About this map</a>''\<rparr>]\<close>

datatype paint_expr = Interpolate string "(jsnum \<times> string) list"

text \<open>\<^verbatim>\<open>countyPaints[m]\<close> is undefined for every key the object does not
  have, except the property names of \<^verbatim>\<open>Object.prototype\<close>: for those it
  is the inherited function or object, which MapLibre rejects, keeping the old
  paint.  The tables below are exact off these names, the only select values
  the model does not cover.\<close>

definition object_prototype_keys :: "string list" where
  "object_prototype_keys =
     [''constructor'', ''__defineGetter__'', ''__defineSetter__'', ''hasOwnProperty'',
      ''__lookupGetter__'', ''__lookupSetter__'', ''isPrototypeOf'', ''propertyIsEnumerable'',
      ''toString'', ''valueOf'', ''__proto__'', ''toLocaleString'']"

definition countyPaints :: "string \<Rightarrow> paint_expr option" where
  "countyPaints m =
     (if m = ''area'' then Some (Interpolate ''area_sq_miles''
        [(Num 0, ''#edf8fb''), (Num 500, ''#b2e2e2''), (Num 1000, ''#66c2a4''), (Num 2000, ''#238b45''), (Num 4000, ''#00441b'')])
      else if m = ''population'' then Some (Interpolate ''population''
        [(Num 0, ''#fff5f0''), (Num 10000, ''#fcbba1''), (Num 50000, ''#fc9272''), (Num 200000, ''#fb6a4a''), (Num 1000000, ''#a50f15'')])
      else if m = ''density'' then Some (Interpolate ''density''
        [(Num 0, ''#f7fcf5''), (Num 10, ''#c7e9c0''), (Num 100, ''#74c476''), (Num 500, ''#238b45''), (Num 2000, ''#00441b'')])
      else None)"

definition bandPaints :: "string \<Rightarrow> paint_expr option" where
  "bandPaints m =
     (if m = ''area'' then Some (Interpolate ''avg_value''
        [(Num 0, ''#edf8fb''), (Num 500, ''#b2e2e2''), (Num 1000, ''#66c2a4''), (Num 2000, ''#238b45''), (Num 4000, ''#00441b'')])
      else if m = ''population'' then Some (Interpolate ''avg_value''
        [(Num 0, ''#fff5f0''), (Num 10000, ''#fcbba1''), (Num 50000, ''#fc9272''), (Num 200000, ''#fb6a4a''), (Num 1000000, ''#a50f15'')])
      else if m = ''density'' then Some (Interpolate ''avg_value''
        [(Num 0, ''#f7fcf5''), (Num 10, ''#c7e9c0''), (Num 100, ''#74c476''), (Num 500, ''#238b45''), (Num 2000, ''#00441b'')])
      else None)"

text \<open>\<^verbatim>\<open>["get", p]\<close> on a county feature and on a band feature: the
  numeric properties each carries.\<close>

definition county_get :: "string \<Rightarrow> 'g county \<Rightarrow> jsnum option" where
  "county_get p f =
     (if p = ''area_sq_miles'' then Some (area_sq_miles f)
      else if p = ''centroid_lon'' then Some (centroid_lon f)
      else if p = ''population'' then Some (population f)
      else if p = ''density'' then Some (density f)
      else None)"

definition band_get :: "string \<Rightarrow> band \<Rightarrow> jsnum option" where
  "band_get p b =
     (if p = ''avg_value'' then Some (avg_value b)
      else if p = ''bandStart'' then Some (bandStart b)
      else if p = ''bandEnd'' then Some (bandEnd b)
      else None)"

definition paint_stops :: "nat list \<Rightarrow> string list \<Rightarrow> (jsnum \<times> string) list" where
  "paint_stops vs cs = zip (map (\<lambda>v. Num (real v)) vs) cs"

lemmas paint_eval = countyPaints_def bandPaints_def legend_stops_def legend_colors_def paint_stops_def

text \<open>C19: for each of the three colour modes the county paint, the band paint
  and the legend use the same stops with the same colours; the county paint reads
  the metric \<open>createLongitudeBands\<close> aggregates for that mode, and the band
  paint reads the band average.\<close>

theorem paints_match_legend:
  assumes "m \<in> {''area'', ''population'', ''density''}"
  shows "\<exists>vs cs p. legend_stops m = Some vs \<and> legend_colors m = Some cs \<and>
           countyPaints m = Some (Interpolate p (paint_stops vs cs)) \<and>
           county_get p = (\<lambda>f. Some (band_value m f)) \<and>
           bandPaints m = Some (Interpolate ''avg_value'' (paint_stops vs cs)) \<and>
           band_get ''avg_value'' = (\<lambda>b. Some (avg_value b))"
  using assms by (auto simp: paint_eval county_get_def band_get_def band_value_def fun_eq_iff)

theorem paints_match_legend_witness:
  "''density'' \<in> {''area'', ''population'', ''density''} \<and>
   countyPaints ''density'' = Some (Interpolate ''density''
     (paint_stops [0, 10, 100, 500, 2000] [''#f7fcf5'', ''#c7e9c0'', ''#74c476'', ''#238b45'', ''#00441b'']))"
  using paints_match_legend [of "''density''"] by (simp add: paint_eval)

end
