(* ===== verification/Hover.thy ===== *)
theory Hover
  imports Prelude
begin

text \<open>
  The hover cursor (src/script.js, lines 133--146): four listeners, registered
  in this order, set the canvas cursor to \<^verbatim>\<open>"pointer"\<close> when the pointer
  enters the rendered features of \<^verbatim>\<open>county-fill\<close> or \<^verbatim>\<open>lonband-fill\<close> and
  reset it to \<^verbatim>\<open>""\<close> when it leaves them.  MapLibre runs a layer's
  \<^verbatim>\<open>mouseenter\<close>/\<^verbatim>\<open>mouseleave\<close> listener through a delegate on the map's
  \<^verbatim>\<open>mousemove\<close> and \<^verbatim>\<open>mouseout\<close> events that keeps its own flag
  \<^verbatim>\<open>mousein\<close>, whether the layer had rendered features under the pointer at
  the last move; the delegates run in registration order.  A hidden layer has no
  rendered features.  The state is the cursor and each delegate with its flag;
  the visibility of the layers is a parameter, supplied by the controller.
\<close>

datatype hover_kind = MouseEnter | MouseLeave

record hover_listener =
  h_kind :: hover_kind
  h_layer :: string
  h_cursor :: string

definition hover_listeners :: "hover_listener list" where
  "hover_listeners =
     [\<lparr>h_kind = MouseEnter, h_layer = ''county-fill'', h_cursor = ''pointer''\<rparr>,
      \<lparr>h_kind = MouseLeave, h_layer = ''county-fill'', h_cursor = ''''\<rparr>,
      \<lparr>h_kind = MouseEnter, h_layer = ''lonband-fill'', h_cursor = ''pointer''\<rparr>,
      \<lparr>h_kind = MouseLeave, h_layer = ''lonband-fill'', h_cursor = ''''\<rparr>]"

record hover =
  cursor :: string
  delegates :: "(hover_listener \<times> bool) list"

definition hover_init :: hover where
  "hover_init = \<lparr>cursor = '''', delegates = map (\<lambda>l. (l, False)) hover_listeners\<rparr>"

text \<open>One delegate on \<^verbatim>\<open>mousemove\<close>, given whether its layer has rendered
  features under the pointer, and on \<^verbatim>\<open>mouseout\<close>: its new flag and whether
  it calls the listener.\<close>

fun delegate_move :: "hover_kind \<Rightarrow> bool \<Rightarrow> bool \<Rightarrow> bool \<times> bool" where
  "delegate_move MouseEnter features mousein =
     (if \<not> features then (False, False) else if \<not> mousein then (True, True) else (mousein, False))"
| "delegate_move MouseLeave features mousein =
     (if features then (True, False) else if mousein then (False, True) else (False, False))"

fun delegate_out :: "hover_kind \<Rightarrow> bool \<Rightarrow> bool \<times> bool" where
  "delegate_out MouseEnter mousein = (False, False)"
| "delegate_out MouseLeave mousein = (False, mousein)"

fun run_delegates ::
  "(hover_listener \<Rightarrow> bool \<Rightarrow> bool \<times> bool) \<Rightarrow> (hover_listener \<times> bool) list \<Rightarrow> string
   \<Rightarrow> (hover_listener \<times> bool) list \<times> string" where
  "run_delegates d [] c = ([], c)"
| "run_delegates d ((l, m) # ls) c =
     (let (m', fire) = d l m;
          (ls', c') = run_delegates d ls (if fire then h_cursor l else c)
      in ((l, m') # ls', c'))"

definition mouse_move :: "(string \<Rightarrow> bool) \<Rightarrow> hover \<Rightarrow> hover" where
  "mouse_move rendered h =
     (let (ds, c) = run_delegates (\<lambda>l. delegate_move (h_kind l) (rendered (h_layer l))) (delegates h) (cursor h)
      in h\<lparr>delegates := ds, cursor := c\<rparr>)"

definition mouse_out :: "hover \<Rightarrow> hover" where
  "mouse_out h =
     (let (ds, c) = run_delegates (\<lambda>l. delegate_out (h_kind l)) (delegates h) (cursor h)
      in h\<lparr>delegates := ds, cursor := c\<rparr>)"

text \<open>The invariant: the delegates are the four listeners; the two of a layer
  agree on whether the pointer is in it; the cursor is \<^verbatim>\<open>""\<close> or
  \<^verbatim>\<open>"pointer"\<close>, and \<^verbatim>\<open>"pointer"\<close> only while the pointer is in a layer.\<close>

definition hover_inv :: "hover \<Rightarrow> bool" where
  "hover_inv h =
     (map fst (delegates h) = hover_listeners \<and>
      (case map snd (delegates h) of
         [a, b, c, d] \<Rightarrow> a = b \<and> c = d \<and> (cursor h = ''pointer'' \<longrightarrow> a \<or> c)
       | _ \<Rightarrow> False) \<and>
      cursor h \<in> {'''', ''pointer''})"

lemma hover_inv_cases:
  assumes "hover_inv h"
  obtains a c where
    "delegates h = zip hover_listeners [a, a, c, c]" "cursor h = ''pointer'' \<Longrightarrow> a \<or> c"
    "cursor h \<in> {'''', ''pointer''}"
proof -
  obtain ds where ds: "delegates h = ds" by simp
  with assms have "map fst ds = hover_listeners" by (simp add: hover_inv_def)
  then obtain l0 l1 l2 l3 a b c d where "ds = [(l0, a), (l1, b), (l2, c), (l3, d)]"
    by (auto simp: hover_listeners_def map_eq_Cons_conv)
  with that assms ds show ?thesis by (auto simp: hover_inv_def hover_listeners_def)
qed

lemma mouse_move_eval:
  "mouse_move r \<lparr>cursor = c0, delegates = zip hover_listeners [a, b, c, d]\<rparr> =
     \<lparr>cursor = (let c1 = (if r ''county-fill'' \<and> \<not> a then ''pointer'' else c0);
                   c2 = (if \<not> r ''county-fill'' \<and> b then '''' else c1);
                   c3 = (if r ''lonband-fill'' \<and> \<not> c then ''pointer'' else c2)
               in if \<not> r ''lonband-fill'' \<and> d then '''' else c3),
      delegates = zip hover_listeners [r ''county-fill'', r ''county-fill'', r ''lonband-fill'', r ''lonband-fill'']\<rparr>"
  by (simp add: mouse_move_def hover_listeners_def Let_def)

lemma mouse_out_eval:
  "mouse_out \<lparr>cursor = c0, delegates = zip hover_listeners [a, b, c, d]\<rparr> =
     \<lparr>cursor = (if b \<or> d then '''' else c0), delegates = zip hover_listeners [False, False, False, False]\<rparr>"
  by (simp add: mouse_out_def hover_listeners_def Let_def)


lemma hover_eta: "h = \<lparr>cursor = cursor h, delegates = delegates h\<rparr>"
  by simp

lemma hover_inv_init: "hover_inv hover_init"
  by (simp add: hover_inv_def hover_init_def hover_listeners_def)

lemma hover_inv_mouse_move: "hover_inv h \<Longrightarrow> hover_inv (mouse_move r h)"
proof -
  assume "hover_inv h"
  then obtain a c where ds: "delegates h = zip hover_listeners [a, a, c, c]"
    and p: "cursor h = ''pointer'' \<Longrightarrow> a \<or> c" and cur: "cursor h \<in> {'''', ''pointer''}"
    using hover_inv_cases by blast
  have "mouse_move r h = mouse_move r \<lparr>cursor = cursor h, delegates = zip hover_listeners [a, a, c, c]\<rparr>"
    by (subst hover_eta) (simp only: ds)
  also have "\<dots> = \<lparr>cursor = (let c1 = (if r ''county-fill'' \<and> \<not> a then ''pointer'' else cursor h);
                   c2 = (if \<not> r ''county-fill'' \<and> a then '''' else c1);
                   c3 = (if r ''lonband-fill'' \<and> \<not> c then ''pointer'' else c2)
               in if \<not> r ''lonband-fill'' \<and> c then '''' else c3),
      delegates = zip hover_listeners [r ''county-fill'', r ''county-fill'', r ''lonband-fill'', r ''lonband-fill'']\<rparr>"
    by (rule mouse_move_eval)
  finally show ?thesis using cur p by (auto simp: hover_inv_def Let_def hover_listeners_def)
qed

lemma hover_inv_mouse_out: "hover_inv h \<Longrightarrow> hover_inv (mouse_out h)"
proof -
  assume "hover_inv h"
  then obtain a c where ds: "delegates h = zip hover_listeners [a, a, c, c]"
    and p: "cursor h = ''pointer'' \<Longrightarrow> a \<or> c" and cur: "cursor h \<in> {'''', ''pointer''}"
    using hover_inv_cases by blast
  have "mouse_out h = mouse_out \<lparr>cursor = cursor h, delegates = zip hover_listeners [a, a, c, c]\<rparr>"
    by (subst hover_eta) (simp only: ds)
  also have "\<dots> = \<lparr>cursor = (if a \<or> c then '''' else cursor h),
                    delegates = zip hover_listeners [False, False, False, False]\<rparr>"
    by (rule mouse_out_eval)
  finally show ?thesis using cur p by (auto simp: hover_inv_def hover_listeners_def)
qed

text \<open>C20: when the pointer leaves the map and comes back, the cursor is
  \<^verbatim>\<open>"pointer"\<close> exactly when a fill layer has rendered features under it.\<close>

theorem cursor_after_reentry:
  assumes "hover_inv h"
  shows "cursor (mouse_move rendered (mouse_out h)) =
           (if rendered ''county-fill'' \<or> rendered ''lonband-fill'' then ''pointer'' else '''')"
proof -
  from assms obtain a c where ds: "delegates h = zip hover_listeners [a, a, c, c]"
    and p: "cursor h = ''pointer'' \<Longrightarrow> a \<or> c" and cur: "cursor h \<in> {'''', ''pointer''}"
    using hover_inv_cases by blast
  have "mouse_out h = mouse_out \<lparr>cursor = cursor h, delegates = zip hover_listeners [a, a, c, c]\<rparr>"
    by (subst hover_eta) (simp only: ds)
  also have "\<dots> = \<lparr>cursor = '''', delegates = zip hover_listeners [False, False, False, False]\<rparr>"
    using p cur by (auto simp: mouse_out_eval)
  finally show ?thesis by (simp add: mouse_move_eval Let_def)
qed

theorem cursor_after_reentry_witness:
  "hover_inv hover_init \<and>
   cursor (mouse_move (\<lambda>l. l = ''lonband-fill'') (mouse_out hover_init)) = ''pointer''"
  using cursor_after_reentry [OF hover_inv_init, of "\<lambda>l. l = ''lonband-fill''"] hover_inv_init by simp

end
