(* ===== verification/Format.thy ===== *)
theory Format
  imports Legend Preprocess
begin

text \<open>
  The number printers and the parser behind the popups and the derived
  properties: \<^verbatim>\<open>Number.prototype.toFixed\<close> (ECMA-262, 21.1.3.3),
  \<^verbatim>\<open>toLocaleString\<close> in the en-US locale with a maximum number of fraction
  digits (Intl.NumberFormat: ties away from zero, groups of three, no trailing
  fraction zeros), \<^verbatim>\<open>parseFloat\<close> (the longest prefix that is a decimal
  literal), and the popup HTML of the click listeners (src/script.js, lines
  163--168 and 176--180).  Strings are UTF-8 byte strings, as in the source
  file: the degree sign is two bytes.  \<^verbatim>\<open>toFixed\<close> prints a number of
  magnitude at least \<open>10^21\<close> with \<^verbatim>\<open>Number::toString\<close>, whose shortest
  round-trip digits depend on the double and are not modelled: that case is
  \<open>None\<close>.
\<close>

definition degree_sign :: string where
  "degree_sign = [CHR 0xC2, CHR 0xB0]"

definition infinity_sign :: string where
  "infinity_sign = [CHR 0xE2, CHR 0x88, CHR 0x9E]"

text \<open>The decimal digits of \<open>n\<close>, left-padded with zeros to at least \<open>w\<close> digits.\<close>

definition padded_digits :: "nat \<Rightarrow> nat \<Rightarrow> string" where
  "padded_digits w n = replicate (w - length (decimal_digits n)) (CHR ''0'') @ decimal_digits n"

text \<open>The integer closest to \<open>y \<ge> 0\<close>, the larger one on a tie.\<close>

definition round_nat :: "real \<Rightarrow> nat" where
  "round_nat y = nat \<lfloor>y + 1 / 2\<rfloor>"

fun to_fixed :: "nat \<Rightarrow> jsnum \<Rightarrow> string option" where
  "to_fixed f NaN = Some ''NaN''"
| "to_fixed f PosInf = Some ''Infinity''"
| "to_fixed f NegInf = Some ''-Infinity''"
| "to_fixed f (Num x) =
     (let s = (if x < 0 then ''-'' else []); a = \<bar>x\<bar> in
      if 10 ^ 21 \<le> a then None
      else
        let n = round_nat (a * 10 ^ f);
            m = padded_digits (f + 1) n;
            k = length m
        in Some (s @ (if f = 0 then m else take (k - f) m @ ''.'' @ drop (k - f) m)))"

text \<open>\<^verbatim>\<open>toLocaleString\<close> with at most \<open>k\<close> fraction digits.\<close>

fun locale_fixed :: "nat \<Rightarrow> jsnum \<Rightarrow> string" where
  "locale_fixed k NaN = ''NaN''"
| "locale_fixed k PosInf = infinity_sign"
| "locale_fixed k NegInf = ''-'' @ infinity_sign"
| "locale_fixed k (Num x) =
     (let n = round_nat (\<bar>x\<bar> * 10 ^ k);
          frac = rev (dropWhile (\<lambda>c. c = CHR ''0'') (rev (padded_digits k (n mod 10 ^ k))))
      in (if x < 0 then ''-'' else []) @ locale_int (n div 10 ^ k) @ (if frac = [] then [] else ''.'' @ frac))"

text \<open>StrDecimalLiteral: an optional sign and an unsigned decimal literal.\<close>

definition str_decimal_literal :: "string \<Rightarrow> jsnum option" where
  "str_decimal_literal s =
     (case s of
        c # r \<Rightarrow> if c = CHR ''-'' then map_option uminus (parse_unsigned_decimal r)
                 else if c = CHR ''+'' then parse_unsigned_decimal r
                 else parse_unsigned_decimal s
      | [] \<Rightarrow> None)"

definition parse_float :: "string \<Rightarrow> jsnum" where
  "parse_float s =
     (let t = dropWhile js_ws s in
      case find (\<lambda>i. str_decimal_literal (take i t) \<noteq> None) (rev [0..<Suc (length t)]) of
        Some i \<Rightarrow> the (str_decimal_literal (take i t))
      | None \<Rightarrow> NaN)"

text \<open>ToString of a JSON scalar in a template literal; a Number prints by
  \<^verbatim>\<open>Number::toString\<close>, modelled for integers below \<open>10^21\<close>.\<close>

fun js_to_string :: "jsval \<Rightarrow> string option" where
  "js_to_string JUndefined = Some ''undefined''"
| "js_to_string JNull = Some ''null''"
| "js_to_string (JBool b) = Some (if b then ''true'' else ''false'')"
| "js_to_string (JString str) = Some str"
| "js_to_string (JNumber NaN) = Some ''NaN''"
| "js_to_string (JNumber PosInf) = Some ''Infinity''"
| "js_to_string (JNumber NegInf) = Some ''-Infinity''"
| "js_to_string (JNumber (Num a)) =
     (if of_int \<lfloor>a\<rfloor> = a \<and> \<bar>a\<bar> < 10 ^ 21
      then Some ((if a < 0 then ''-'' else []) @ decimal_digits (nat \<lfloor>\<bar>a\<bar>\<rfloor>)) else None)"

text \<open>A line break followed by \<open>k\<close> spaces, as the template literals have.\<close>

definition indent :: "nat \<Rightarrow> string" where
  "indent k = CHR 0x0A # replicate k (CHR '' '')"

definition county_popup_html :: "jsval \<Rightarrow> jsnum \<Rightarrow> jsnum \<Rightarrow> jsnum \<Rightarrow> html option" where
  "county_popup_html name area pop dens =
     map_option (\<lambda>n. indent 6 @ ''<strong>'' @ n @ ''</strong><br>''
                     @ indent 6 @ ''Area: '' @ locale_fixed 3 area @ '' sq mi<br>''
                     @ indent 6 @ ''Population: '' @ locale_fixed 3 pop @ ''<br>''
                     @ indent 6 @ ''Density: '' @ locale_fixed 3 dens @ '' /sq mi'' @ indent 4)
       (js_to_string name)"

definition band_popup_html :: "jsnum \<Rightarrow> jsnum \<Rightarrow> string \<Rightarrow> jsnum \<Rightarrow> html option" where
  "band_popup_html bandStart bandEnd colorMode avg =
     (case (to_fixed 1 bandStart, to_fixed 1 bandEnd) of
        (Some s, Some e) \<Rightarrow>
          Some (indent 6 @ ''<strong>Longitude Band</strong><br>''
                @ indent 6 @ s @ degree_sign @ '' to '' @ e @ degree_sign @ '' W<br>''
                @ indent 6 @ ''Average '' @ colorMode @ '': '' @ locale_fixed 1 avg @ indent 4)
      | _ \<Rightarrow> None)"

lemmas format_eval = padded_digits_def round_nat_def legend_eval Let_def indent_def degree_sign_def
  infinity_sign_def county_popup_html_def band_popup_html_def

subsection \<open>The printers against the parser\<close>

lemma digits_value_zeros:
  "digits_value 10 0 (replicate z (CHR ''0'') @ ds) = digits_value 10 0 ds"
  by (induction z) (simp_all add: digit_in_def)

lemma padded_digits_all [simp]: "list_all is_digit (padded_digits w n)"
proof -
  have "list_all is_digit (replicate z (CHR ''0''))" for z by (induction z) (simp_all add: is_digit_def)
  then show ?thesis using decimal_digits_all_digits [of n] by (simp add: padded_digits_def)
qed

lemma dec_value_padded [simp]: "dec_value (padded_digits w n) = n"
  by (simp add: padded_digits_def dec_value_def digits_value_zeros digits_value_decimal_digits)



lemma parse_float_whole:
  assumes "str_decimal_literal t = Some v" and "\<not> js_ws (hd t)"
  shows "parse_float t = v"
proof -
  have ne: "t \<noteq> []" using assms(1) by (auto simp: str_decimal_literal_def)
  then have "dropWhile js_ws t = t" using assms(2) by (cases t) auto
  moreover have "rev [0..<Suc (length t)] = length t # rev [0..<length t]" by simp
  ultimately show ?thesis using assms(1) by (simp add: parse_float_def)
qed





lemma parse_float_digits:
  assumes "ds \<noteq> []" and "list_all is_digit ds"
  shows "parse_float ds = Num (real (dec_value ds))"
proof -
  obtain c r where ds: "ds = c # r" using assms(1) by (cases ds) auto
  with assms(2) have "is_digit c" by simp
  then have "c \<noteq> CHR ''-'' \<and> c \<noteq> CHR ''+'' \<and> \<not> js_ws c" using is_digit_not_special by blast
  then have "str_decimal_literal ds = Some (Num (real (dec_value ds)))" and "\<not> js_ws (hd ds)"
    using assms ds parse_unsigned_decimal_digits [OF assms] by (simp_all add: str_decimal_literal_def)
  then show ?thesis by (rule parse_float_whole)
qed

lemmas slider_eval = parse_float_digits is_digit_def dec_value_def digit_in_def

lemma to_fixed_neg:
  "x < 0 \<Longrightarrow> to_fixed f (Num x) = map_option (\<lambda>str. ''-'' @ str) (to_fixed f (Num (- x)))"
  by (simp add: Let_def)




text \<open>C24: the band popup prints a western band start with its minus sign and
  still labels the interval W: for a start \<open>s < 0\<close> the text reads
  \<open>-|s|\<degree> to ...\<degree> W\<close>, which names a longitude east of Greenwich.\<close>

theorem band_popup_western:
  assumes "s < 0" and "\<bar>s\<bar> < 10 ^ 21" and "to_fixed 1 e = Some te"
  shows "band_popup_html (Num s) e cm avg =
           Some (indent 6 @ ''<strong>Longitude Band</strong><br>'' @ indent 6 @ ''-'' @ the (to_fixed 1 (Num (- s)))
                 @ degree_sign @ '' to '' @ te @ degree_sign @ '' W<br>''
                 @ indent 6 @ ''Average '' @ cm @ '': '' @ locale_fixed 1 avg @ indent 4)"
proof -
  have "\<exists>str. to_fixed 1 (Num (- s)) = Some str" using assms(1,2) by (simp add: Let_def)
  then obtain str where str: "to_fixed 1 (Num (- s)) = Some str" by blast
  then have "to_fixed 1 (Num s) = Some (''-'' @ str)" using to_fixed_neg [OF assms(1)] by simp
  then show ?thesis using assms(3) str by (simp add: band_popup_html_def)
qed

theorem band_popup_western_witness:
  "(-100::real) < 0 \<and> \<bar>-100::real\<bar> < 10 ^ 21 \<and> to_fixed 1 (Num (-98)) = Some ''-98.0'' \<and>
   band_popup_html (Num (-100)) (Num (-98)) ''area'' (Num 1234.56) =
     Some (indent 6 @ ''<strong>Longitude Band</strong><br>'' @ indent 6 @ ''-100.0'' @ degree_sign
           @ '' to -98.0'' @ degree_sign @ '' W<br>'' @ indent 6 @ ''Average area: 1,234.6'' @ indent 4)"
proof -
  have e: "to_fixed 1 (Num (-98)) = Some ''-98.0''" by (simp add: format_eval)
  have s: "the (to_fixed 1 (Num (- (-100)))) = ''100.0''" by (simp add: format_eval)
  have l: "locale_fixed 1 (Num 1234.56) = ''1,234.6''" by (simp add: format_eval)
  show ?thesis
    using band_popup_western [of "-100" "Num (-98)" "''-98.0''" "''area''" "Num 1234.56"] e s l by simp
qed

end
