(* ===== verification/Controller.thy ===== *)
theory Controller
  imports Paint Hover Format
begin

text \<open>
  The page controller: the state the load handler and the event listeners of
  src/script.js share (the globals \<^verbatim>\<open>counties\<close>, \<^verbatim>\<open>bandWidth\<close>,
  \<^verbatim>\<open>colorMode\<close>, \<^verbatim>\<open>activePopup\<close>, the handler-local \<^verbatim>\<open>mode\<close>, and the
  map's layer visibility, paint properties, band source, open popups,
  hover cursor and pending animation frames) as a record, and every listener as a function on
  it.  A deterministic step function runs one browser event; the reachable
  pages are an inductive set.  An exception a handler leaves uncaught is
  logged in \<open>errors\<close>, and the writes it made before throwing persist, as in
  the browser.
\<close>

text \<open>One pending \<^verbatim>\<open>animateStep\<close> closure: its \<^verbatim>\<open>currentStep\<close> and
  \<^verbatim>\<open>stepSize\<close> (\<^verbatim>\<open>steps\<close> is the constant 10).\<close>

record anim =
  currentStep :: nat
  stepSize :: jsnum

datatype popup_content =
    CountyPopup jsval jsnum jsnum jsnum
  | BandPopup jsnum jsnum string jsnum

text \<open>The shared state.  \<open>band_value_text\<close> is the text the slider handler
  last wrote into the width display (None before any input, and for a width of
  magnitude at least \<open>10^21\<close>, whose \<^verbatim>\<open>toFixed\<close> is not modelled).
  The paints are the layers' \<^verbatim>\<open>fill-color\<close> expressions, None for the
  default that \<^verbatim>\<open>setPaintProperty\<close> with undefined restores.\<close>

record 'g app =
  counties :: "'g county list"
  bandWidth :: jsnum
  colorMode :: string
  mode :: string
  visibility :: "string \<Rightarrow> string"
  hover :: hover
  county_fill_color :: "paint_expr option"
  band_fill_color :: "paint_expr option"
  lonbands :: "band list"
  legend_html :: html
  btn_text :: "string option"
  band_value_text :: "string option"
  raf_queue :: "anim list"
  activePopup :: "nat option"
  open_popups :: "(nat \<times> popup_content) list"
  next_popup :: nat
  errors :: "js_error list"

datatype 'g page = Loading | LoadFailed | Ready "'g app"

datatype 'g event =
    LoadOk "'g feature_in list"
  | LoadFail
  | ToggleClick
  | SelectChange string
  | SliderInput string
  | Frame
  | MapClick "'g county option" "band option"
  | PopupClose nat
  | MouseMove bool bool
  | MouseOut

definition steps :: nat where
  "steps = 10"

text \<open>Write the legend, or log the TypeError \<^verbatim>\<open>updateLegend\<close> throws.\<close>

definition set_legend :: "string \<Rightarrow> string \<Rightarrow> 'g app \<Rightarrow> 'g app" where
  "set_legend cm vm s =
     (case updateLegend cm vm of
        Inr h \<Rightarrow> s\<lparr>legend_html := h\<rparr>
      | Inl e \<Rightarrow> s\<lparr>errors := errors s @ [e]\<rparr>)"

definition on_load :: "'g turf \<Rightarrow> 'g feature_in list \<Rightarrow> 'g app" where
  "on_load T fs =
     (let cs = preprocess T fs in
      set_legend ''area'' ''county''
        \<lparr>counties = cs, bandWidth = Num 2, colorMode = ''area'', mode = ''county'',
         visibility = (\<lambda>l. if l \<in> {''lonband-fill'', ''lonband-borders''} then ''none'' else ''visible''),
         hover = hover_init, county_fill_color = countyPaints ''area'', band_fill_color = bandPaints ''area'',
         lonbands = createLongitudeBands cs (Num 2) ''area'', legend_html = [],
         btn_text = None, band_value_text = None, raf_queue = [], activePopup = None,
         open_popups = [], next_popup = 0, errors = []\<rparr>)"

definition toggle_click :: "'g app \<Rightarrow> 'g app" where
  "toggle_click s =
     (let s' = (if mode s = ''county'' then
                  s\<lparr>visibility := (visibility s)(''county-fill'' := ''none'', ''county-borders'' := ''none'',
                                     ''lonband-fill'' := ''visible'', ''lonband-borders'' := ''visible''),
                    btn_text := Some ''Switch to County Coloring'', mode := ''band''\<rparr>
                else
                  s\<lparr>visibility := (visibility s)(''county-fill'' := ''visible'', ''county-borders'' := ''visible'',
                                     ''lonband-fill'' := ''none'', ''lonband-borders'' := ''none''),
                    btn_text := Some ''Switch to Longitude Bands'', mode := ''county''\<rparr>)
      in set_legend (colorMode s') (mode s') s')"

definition select_change :: "string \<Rightarrow> 'g app \<Rightarrow> 'g app" where
  "select_change v s =
     (let s' = s\<lparr>colorMode := v, county_fill_color := countyPaints v, band_fill_color := bandPaints v,
                 lonbands := createLongitudeBands (counties s) (bandWidth s) v\<rparr>
      in set_legend v (mode s') s')"

text \<open>\<^verbatim>\<open>animateStep\<close>: it reads the globals \<^verbatim>\<open>bandWidth\<close> and
  \<^verbatim>\<open>colorMode\<close> when it runs, not when the slider handler created it.\<close>

definition animate_step :: "anim \<Rightarrow> 'g app \<Rightarrow> 'g app" where
  "animate_step a s =
     (if steps \<le> currentStep a then s
      else
        let intermediateWidth = bandWidth s + stepSize a * Num (real (currentStep a + 1))
        in s\<lparr>lonbands := createLongitudeBands (counties s) intermediateWidth (colorMode s),
             raf_queue := raf_queue s @ [a\<lparr>currentStep := currentStep a + 1\<rparr>]\<rparr>)"

definition slider_input :: "jsnum \<Rightarrow> 'g app \<Rightarrow> 'g app" where
  "slider_input newWidth s =
     (let s1 = s\<lparr>band_value_text := to_fixed 1 newWidth\<rparr>;
          a = \<lparr>currentStep = 0, stepSize = (newWidth - bandWidth s1) / Num (real steps)\<rparr>;
          s2 = animate_step a s1
      in s2\<lparr>bandWidth := newWidth\<rparr>)"

text \<open>An animation frame runs the callbacks queued before it, in order;
  callbacks they queue wait for the next frame.\<close>

fun run_callbacks :: "anim list \<Rightarrow> 'g app \<Rightarrow> 'g app" where
  "run_callbacks [] s = s"
| "run_callbacks (a # as) s = run_callbacks as (animate_step a s)"

definition frame :: "'g app \<Rightarrow> 'g app" where
  "frame s = run_callbacks (raf_queue s) (s\<lparr>raf_queue := []\<rparr>)"

fun jsval_truthy :: "jsval \<Rightarrow> bool" where
  "jsval_truthy JUndefined = False"
| "jsval_truthy JNull = False"
| "jsval_truthy (JBool b) = b"
| "jsval_truthy (JNumber n) = js_truthy n"
| "jsval_truthy (JString str) = (str \<noteq> [])"

definition county_name :: "'g county \<Rightarrow> jsval" where
  "county_name p =
     (if jsval_truthy (NAME p) then NAME p
      else if jsval_truthy (County p) then County p
      else JString ''Unnamed County'')"

definition show_popup :: "popup_content \<Rightarrow> 'g app \<Rightarrow> 'g app" where
  "show_popup c s =
     (let s1 = (case activePopup s of
                  Some i \<Rightarrow> s\<lparr>open_popups := filter (\<lambda>(j, _). j \<noteq> i) (open_popups s)\<rparr>
                | None \<Rightarrow> s)
      in s1\<lparr>open_popups := open_popups s1 @ [(next_popup s1, c)],
            activePopup := Some (next_popup s1), next_popup := Suc (next_popup s1)\<rparr>)"

definition visible :: "'g app \<Rightarrow> string \<Rightarrow> bool" where
  "visible s l = (visibility s l \<noteq> ''none'')"

text \<open>A click: the listeners on \<^verbatim>\<open>county-fill\<close> and \<^verbatim>\<open>lonband-fill\<close>
  fire, in registration order, when a rendered feature of their layer is
  under the pointer; then the general listener closes the popup when no
  rendered feature of either layer is.\<close>

definition map_click :: "'g county option \<Rightarrow> band option \<Rightarrow> 'g app \<Rightarrow> 'g app" where
  "map_click hc hb s =
     (let s1 = (case hc of
                  Some p \<Rightarrow> if visible s ''county-fill'' then
                              show_popup (CountyPopup (county_name p) (area_sq_miles p) (population p) (density p)) s
                            else s
                | None \<Rightarrow> s);
          s2 = (case hb of
                  Some b \<Rightarrow> if visible s1 ''lonband-fill'' then
                              show_popup (BandPopup (bandStart b) (bandEnd b) (colorMode s1) (avg_value b)) s1
                            else s1
                | None \<Rightarrow> s1);
          hit = ((hc \<noteq> None \<and> visible s2 ''county-fill'') \<or> (hb \<noteq> None \<and> visible s2 ''lonband-fill''))
      in if \<not> hit \<and> activePopup s2 \<noteq> None then
           (case activePopup s2 of
              Some i \<Rightarrow> s2\<lparr>open_popups := filter (\<lambda>(j, _). j \<noteq> i) (open_popups s2), activePopup := None\<rparr>
            | None \<Rightarrow> s2)
         else s2)"

text \<open>The HTML a popup shows (\<^verbatim>\<open>setHTML(html)\<close>).\<close>

fun popup_html :: "popup_content \<Rightarrow> html option" where
  "popup_html (CountyPopup name area pop dens) = county_popup_html name area pop dens"
| "popup_html (BandPopup s e m avg) = band_popup_html s e m avg"

text \<open>The close button of a popup removes it from the map; \<^verbatim>\<open>activePopup\<close>
  still refers to it.\<close>

definition popup_close :: "nat \<Rightarrow> 'g app \<Rightarrow> 'g app" where
  "popup_close i s = s\<lparr>open_popups := filter (\<lambda>(j, _). j \<noteq> i) (open_popups s)\<rparr>"

text \<open>A pointer move (whether a county and a band geometry lie under the
  pointer) and the pointer leaving the canvas: the rendered features of a layer
  are those of a visible layer.\<close>

definition pointer_move :: "bool \<Rightarrow> bool \<Rightarrow> 'g app \<Rightarrow> 'g app" where
  "pointer_move hc hb s =
     s\<lparr>hover := mouse_move (\<lambda>l. visible s l \<and> ((l = ''county-fill'' \<and> hc) \<or> (l = ''lonband-fill'' \<and> hb)))
                          (hover s)\<rparr>"

definition pointer_out :: "'g app \<Rightarrow> 'g app" where
  "pointer_out s = s\<lparr>hover := mouse_out (hover s)\<rparr>"

fun app_step :: "'g app \<Rightarrow> 'g event \<Rightarrow> 'g app" where
  "app_step s ToggleClick = toggle_click s"
| "app_step s (SelectChange v) = select_change v s"
| "app_step s (SliderInput v) = slider_input (parse_float v) s"
| "app_step s Frame = frame s"
| "app_step s (MapClick hc hb) = map_click hc hb s"
| "app_step s (PopupClose i) = popup_close i s"
| "app_step s (MouseMove hc hb) = pointer_move hc hb s"
| "app_step s MouseOut = pointer_out s"
| "app_step s _ = s"

fun page_step :: "'g turf \<Rightarrow> 'g page \<Rightarrow> 'g event \<Rightarrow> 'g page" where
  "page_step T Loading (LoadOk fs) = Ready (on_load T fs)"
| "page_step T Loading LoadFail = LoadFailed"
| "page_step T Loading _ = Loading"
| "page_step T LoadFailed _ = LoadFailed"
| "page_step T (Ready s) e = Ready (app_step s e)"

inductive reachable :: "'g turf \<Rightarrow> 'g page \<Rightarrow> bool" for T where
  start: "reachable T Loading"
| step: "reachable T p \<Longrightarrow> reachable T (page_step T p e)"

subsection \<open>Invariants of the page\<close>

text \<open>The layers shown agree with the view mode; at most one popup is open
  and it is the one \<^verbatim>\<open>activePopup\<close> refers to; every pending animation
  closure has taken between 1 and \<open>steps\<close> steps.\<close>

definition view_consistent :: "'g app \<Rightarrow> bool" where
  "view_consistent s =
     ((mode s = ''county'' \<and> visible s ''county-fill'' \<and> visible s ''county-borders'' \<and>
       \<not> visible s ''lonband-fill'' \<and> \<not> visible s ''lonband-borders'') \<or>
      (mode s = ''band'' \<and> \<not> visible s ''county-fill'' \<and> \<not> visible s ''county-borders'' \<and>
       visible s ''lonband-fill'' \<and> visible s ''lonband-borders''))"

definition popup_inv :: "'g app \<Rightarrow> bool" where
  "popup_inv s =
     (length (open_popups s) \<le> 1 \<and> (\<forall>p\<in>set (open_popups s). activePopup s = Some (fst p)))"

definition queue_inv :: "'g app \<Rightarrow> bool" where
  "queue_inv s = (\<forall>a\<in>set (raf_queue s). 1 \<le> currentStep a \<and> currentStep a \<le> steps)"

definition app_inv :: "'g app \<Rightarrow> bool" where
  "app_inv s = (view_consistent s \<and> popup_inv s \<and> queue_inv s \<and> hover_inv (hover s))"

text \<open>What the page shows agrees with the colour mode: both paints are the
  mode's expressions, the band source is a complete regeneration of the bands for
  the mode (at some width), and for a mode the tables know the legend is the one
  \<^verbatim>\<open>updateLegend\<close> builds for the mode and the view.\<close>

definition display_inv :: "'g app \<Rightarrow> bool" where
  "display_inv s =
     (county_fill_color s = countyPaints (colorMode s) \<and> band_fill_color s = bandPaints (colorMode s) \<and>
      (\<exists>w. lonbands s = createLongitudeBands (counties s) w (colorMode s)) \<and>
      (colorMode s \<in> {''area'', ''population'', ''density''} \<longrightarrow>
         updateLegend (colorMode s) (mode s) = Inr (legend_html s)))"

fun page_inv :: "'g page \<Rightarrow> bool" where
  "page_inv (Ready s) = app_inv s"
| "page_inv _ = True"

subsection \<open>What each operation leaves alone\<close>

lemma set_legend_fields [simp]:
  "counties (set_legend c v s) = counties s" "hover (set_legend c v s) = hover s" "bandWidth (set_legend c v s) = bandWidth s"
  "colorMode (set_legend c v s) = colorMode s" "mode (set_legend c v s) = mode s"
  "visibility (set_legend c v s) = visibility s" "lonbands (set_legend c v s) = lonbands s"
  "raf_queue (set_legend c v s) = raf_queue s" "activePopup (set_legend c v s) = activePopup s"
  "open_popups (set_legend c v s) = open_popups s" "next_popup (set_legend c v s) = next_popup s"
  by (simp_all add: set_legend_def split: sum.split)

lemma animate_step_fields [simp]:
  "counties (animate_step a s) = counties s" "hover (animate_step a s) = hover s" "bandWidth (animate_step a s) = bandWidth s"
  "colorMode (animate_step a s) = colorMode s" "mode (animate_step a s) = mode s"
  "visibility (animate_step a s) = visibility s" "activePopup (animate_step a s) = activePopup s"
  "open_popups (animate_step a s) = open_popups s" "next_popup (animate_step a s) = next_popup s"
  "errors (animate_step a s) = errors s" "legend_html (animate_step a s) = legend_html s"
  by (simp_all add: animate_step_def Let_def)

lemma raf_queue_animate_step:
  "raf_queue (animate_step a s) =
     raf_queue s @ (if currentStep a < steps then [a\<lparr>currentStep := currentStep a + 1\<rparr>] else [])"
  by (simp add: animate_step_def Let_def)

lemma run_callbacks_fields [simp]:
  "counties (run_callbacks as s) = counties s" "hover (run_callbacks as s) = hover s" "bandWidth (run_callbacks as s) = bandWidth s"
  "colorMode (run_callbacks as s) = colorMode s" "mode (run_callbacks as s) = mode s"
  "visibility (run_callbacks as s) = visibility s" "activePopup (run_callbacks as s) = activePopup s"
  "open_popups (run_callbacks as s) = open_popups s" "next_popup (run_callbacks as s) = next_popup s"
  "errors (run_callbacks as s) = errors s"
  by (induction as arbitrary: s) simp_all

lemma raf_queue_run_callbacks:
  "raf_queue (run_callbacks as s) =
     raf_queue s @ map (\<lambda>a. a\<lparr>currentStep := currentStep a + 1\<rparr>) (filter (\<lambda>a. currentStep a < steps) as)"
  by (induction as arbitrary: s) (simp_all add: raf_queue_animate_step)

lemma frame_fields [simp]:
  "counties (frame s) = counties s" "hover (frame s) = hover s" "bandWidth (frame s) = bandWidth s"
  "colorMode (frame s) = colorMode s" "mode (frame s) = mode s"
  "visibility (frame s) = visibility s" "activePopup (frame s) = activePopup s"
  "open_popups (frame s) = open_popups s" "next_popup (frame s) = next_popup s"
  "errors (frame s) = errors s"
  by (simp_all add: frame_def)

lemma raf_queue_frame:
  "raf_queue (frame s) =
     map (\<lambda>a. a\<lparr>currentStep := currentStep a + 1\<rparr>) (filter (\<lambda>a. currentStep a < steps) (raf_queue s))"
  by (simp add: frame_def raf_queue_run_callbacks)

lemma show_popup_fields [simp]:
  "counties (show_popup c s) = counties s" "hover (show_popup c s) = hover s" "bandWidth (show_popup c s) = bandWidth s"
  "colorMode (show_popup c s) = colorMode s" "mode (show_popup c s) = mode s"
  "visibility (show_popup c s) = visibility s" "raf_queue (show_popup c s) = raf_queue s"
  by (simp_all add: show_popup_def Let_def split: option.split)

lemma map_click_fields [simp]:
  "counties (map_click hc hb s) = counties s" "hover (map_click hc hb s) = hover s" "bandWidth (map_click hc hb s) = bandWidth s"
  "colorMode (map_click hc hb s) = colorMode s" "mode (map_click hc hb s) = mode s"
  "visibility (map_click hc hb s) = visibility s" "raf_queue (map_click hc hb s) = raf_queue s"
  by (simp_all add: map_click_def Let_def split: option.split)

lemma select_change_fields [simp]:
  "counties (select_change v s) = counties s" "hover (select_change v s) = hover s" "bandWidth (select_change v s) = bandWidth s"
  "mode (select_change v s) = mode s" "colorMode (select_change v s) = v" "visibility (select_change v s) = visibility s"
  "raf_queue (select_change v s) = raf_queue s" "activePopup (select_change v s) = activePopup s"
  "open_popups (select_change v s) = open_popups s"
  by (simp_all add: select_change_def Let_def)

lemma toggle_click_fields [simp]:
  "counties (toggle_click s) = counties s" "hover (toggle_click s) = hover s" "bandWidth (toggle_click s) = bandWidth s"
  "raf_queue (toggle_click s) = raf_queue s" "activePopup (toggle_click s) = activePopup s"
  "open_popups (toggle_click s) = open_popups s"
  by (simp_all add: toggle_click_def Let_def)

lemma slider_input_fields [simp]:
  "counties (slider_input w s) = counties s" "hover (slider_input w s) = hover s" "mode (slider_input w s) = mode s"
  "visibility (slider_input w s) = visibility s" "activePopup (slider_input w s) = activePopup s"
  "open_popups (slider_input w s) = open_popups s" "colorMode (slider_input w s) = colorMode s"
  by (simp_all add: slider_input_def Let_def)

lemma pointer_fields [simp]:
  "visibility (pointer_move hc hb s) = visibility s" "mode (pointer_move hc hb s) = mode s"
  "hover (pointer_move hc hb s) =
     mouse_move (\<lambda>l. visible s l \<and> ((l = ''county-fill'' \<and> hc) \<or> (l = ''lonband-fill'' \<and> hb))) (hover s)"
  "visibility (pointer_out s) = visibility s" "mode (pointer_out s) = mode s"
  "hover (pointer_out s) = mouse_out (hover s)"
  by (simp_all add: pointer_move_def pointer_out_def)

lemma toggle_click_view:
  "mode (toggle_click s) = (if mode s = ''county'' then ''band'' else ''county'')"
  "visibility (toggle_click s) =
     (if mode s = ''county'' then
        (visibility s)(''county-fill'' := ''none'', ''county-borders'' := ''none'',
                       ''lonband-fill'' := ''visible'', ''lonband-borders'' := ''visible'')
      else (visibility s)(''county-fill'' := ''visible'', ''county-borders'' := ''visible'',
                          ''lonband-fill'' := ''none'', ''lonband-borders'' := ''none''))"
  by (simp_all add: toggle_click_def Let_def)

subsection \<open>Every event keeps the invariants\<close>

lemma view_consistent_toggle: "view_consistent s \<Longrightarrow> view_consistent (toggle_click s)"
  by (auto simp: view_consistent_def toggle_click_def visible_def Let_def set_legend_def split: sum.split)

lemma view_consistent_frame_cong:
  "mode t = mode s \<Longrightarrow> visibility t = visibility s \<Longrightarrow> view_consistent t = view_consistent s"
  by (simp add: view_consistent_def visible_def)

lemma popup_inv_show_popup: "popup_inv s \<Longrightarrow> popup_inv (show_popup c s)"
proof -
  assume inv: "popup_inv s"
  have "filter (\<lambda>(j, _). j \<noteq> i) (open_popups s) = []" if "activePopup s = Some i" for i
    using inv that by (auto simp: popup_inv_def filter_empty_conv)
  moreover have "open_popups s = []" if "activePopup s = None"
    using inv that by (cases "open_popups s") (auto simp: popup_inv_def)
  ultimately show ?thesis
    by (cases "activePopup s") (auto simp: show_popup_def popup_inv_def)
qed

lemma popup_inv_close_active:
  "popup_inv s \<Longrightarrow> activePopup s = Some i \<Longrightarrow>
   popup_inv (s\<lparr>open_popups := filter (\<lambda>(j, _). j \<noteq> i) (open_popups s), activePopup := None\<rparr>)"
  by (auto simp: popup_inv_def filter_empty_conv simp del: One_nat_def)

lemma popup_inv_map_click: "popup_inv s \<Longrightarrow> popup_inv (map_click hc hb s)"
  unfolding map_click_def Let_def
  by (auto split: option.split intro!: popup_inv_show_popup popup_inv_close_active)

lemma popup_inv_popup_close: "popup_inv s \<Longrightarrow> popup_inv (popup_close i s)"
  by (auto simp: popup_inv_def popup_close_def simp del: One_nat_def)

lemma popup_inv_cong:
  "open_popups t = open_popups s \<Longrightarrow> activePopup t = activePopup s \<Longrightarrow> popup_inv t = popup_inv s"
  by (simp add: popup_inv_def)

lemma queue_inv_animate_step: "queue_inv s \<Longrightarrow> queue_inv (animate_step a s)"
  by (auto simp: queue_inv_def raf_queue_animate_step)

lemma queue_inv_frame: "queue_inv (frame s)"
  by (auto simp: queue_inv_def raf_queue_frame)

lemma queue_inv_cong: "raf_queue t = raf_queue s \<Longrightarrow> queue_inv t = queue_inv s"
  by (simp add: queue_inv_def)

lemma queue_inv_slider_input: "queue_inv s \<Longrightarrow> queue_inv (slider_input w s)"
  by (auto simp: slider_input_def Let_def queue_inv_def raf_queue_animate_step)

lemma popup_close_fields [simp]:
  "mode (popup_close i s) = mode s" "hover (popup_close i s) = hover s" "visibility (popup_close i s) = visibility s"
  "raf_queue (popup_close i s) = raf_queue s"
  by (simp_all add: popup_close_def)

lemma app_inv_step: "app_inv s \<Longrightarrow> app_inv (app_step s e)"
proof (cases e)
  case ToggleClick
  assume "app_inv s"
  then show ?thesis using ToggleClick
    by (simp add: app_inv_def view_consistent_toggle popup_inv_cong [of "toggle_click s" s]
                  queue_inv_cong [of "toggle_click s" s])
next
  case (SelectChange v)
  assume "app_inv s"
  then show ?thesis using SelectChange
    by (simp add: app_inv_def view_consistent_frame_cong [of "select_change v s" s]
                  popup_inv_cong [of "select_change v s" s] queue_inv_cong [of "select_change v s" s])
next
  case (SliderInput w)
  assume "app_inv s"
  then show ?thesis using SliderInput
    by (simp add: app_inv_def view_consistent_frame_cong [of "slider_input (parse_float w) s" s]
                  popup_inv_cong [of "slider_input (parse_float w) s" s] queue_inv_slider_input)
next
  case Frame
  assume "app_inv s"
  then show ?thesis using Frame
    by (simp add: app_inv_def view_consistent_frame_cong [of "frame s" s]
                  popup_inv_cong [of "frame s" s] queue_inv_frame)
next
  case (MapClick hc hb)
  assume "app_inv s"
  then show ?thesis using MapClick
    by (simp add: app_inv_def view_consistent_frame_cong [of "map_click hc hb s" s]
                  popup_inv_map_click queue_inv_cong [of "map_click hc hb s" s])
next
  case (PopupClose i)
  assume "app_inv s"
  then show ?thesis using PopupClose
    by (simp add: app_inv_def view_consistent_frame_cong [of "popup_close i s" s]
                  popup_inv_popup_close queue_inv_cong [of "popup_close i s" s])
next
  case (MouseMove hc hb)
  assume "app_inv s"
  then show ?thesis using MouseMove
    by (simp add: app_inv_def pointer_move_def view_consistent_def visible_def popup_inv_def queue_inv_def
                  hover_inv_mouse_move)
next
  case MouseOut
  assume "app_inv s"
  then show ?thesis using MouseOut
    by (simp add: app_inv_def pointer_out_def view_consistent_def visible_def popup_inv_def queue_inv_def
                  hover_inv_mouse_out)
qed simp_all

lemma app_inv_on_load: "app_inv (on_load T fs)"
  by (simp add: on_load_def Let_def app_inv_def view_consistent_def visible_def popup_inv_def
                queue_inv_def set_legend_def hover_inv_init split: sum.split)

lemma reachable_page_inv: "reachable T p \<Longrightarrow> page_inv p"
proof (induction rule: reachable.induct)
  case (step p e)
  show ?case
  proof (cases p)
    case Loading
    then show ?thesis by (cases e) (simp_all add: app_inv_on_load)
  next
    case (Ready s)
    with step.IH have "app_inv s" by simp
    then have "app_inv (app_step s e)" by (rule app_inv_step)
    with Ready show ?thesis by simp
  qed simp
qed simp

lemma reachable_app_inv: "reachable T (Ready s) \<Longrightarrow> app_inv s"
  using reachable_page_inv by fastforce

text \<open>Rule induction over the reachable pages, for an invariant of the
  application state.\<close>

lemma reachable_app_induct:
  assumes "reachable T (Ready s)"
    and "\<And>fs. P (on_load T fs)" and "\<And>s e. P s \<Longrightarrow> P (app_step s e)"
  shows "P s"
proof -
  have "reachable T p \<Longrightarrow> (case p of Ready s \<Rightarrow> P s | _ \<Rightarrow> True)" for p
  proof (induction rule: reachable.induct)
    case (step p e)
    show ?case
    proof (cases p)
      case Loading
      then show ?thesis by (cases e) (simp_all add: assms(2))
    next
      case (Ready s)
      with step.IH show ?thesis by (simp del: app_step.simps add: assms(3))
    qed simp
  qed simp
  from this [OF assms(1)] show ?thesis by simp
qed

lemma set_legend_display:
  "m \<in> {''area'', ''population'', ''density''} \<Longrightarrow> updateLegend m v = Inr (legend_html (set_legend m v s))"
  using updateLegend_known [of m v] by (auto simp: set_legend_def)

lemma set_legend_paints [simp]:
  "county_fill_color (set_legend m v s) = county_fill_color s"
  "band_fill_color (set_legend m v s) = band_fill_color s"
  by (simp_all add: set_legend_def split: sum.split)

lemma display_inv_animate_step: "display_inv s \<Longrightarrow> display_inv (animate_step a s)"
  by (auto simp: display_inv_def animate_step_def Let_def)

lemma display_inv_run_callbacks: "display_inv s \<Longrightarrow> display_inv (run_callbacks as s)"
  by (induction as arbitrary: s) (simp_all add: display_inv_animate_step)

lemma display_inv_frame: "display_inv s \<Longrightarrow> display_inv (frame s)"
  unfolding frame_def by (rule display_inv_run_callbacks) (simp add: display_inv_def)

lemma display_inv_step: "display_inv s \<Longrightarrow> display_inv (app_step s e)"
proof (cases e)
  case ToggleClick
  assume "display_inv s"
  then show ?thesis using ToggleClick
    by (auto simp: display_inv_def toggle_click_def Let_def set_legend_display)
next
  case (SelectChange v)
  assume "display_inv s"
  then show ?thesis using SelectChange
    by (auto simp: display_inv_def select_change_def Let_def set_legend_display)
next
  case (SliderInput w)
  assume "display_inv s"
  then show ?thesis using SliderInput
    by (auto simp: display_inv_def slider_input_def Let_def animate_step_def steps_def)
next
  case Frame
  assume "display_inv s"
  then show ?thesis using Frame by (simp add: display_inv_frame)
qed (simp_all add: display_inv_def map_click_def show_popup_def popup_close_def pointer_move_def pointer_out_def
                   Let_def split: option.split)

lemma display_inv_on_load: "display_inv (on_load T fs)"
  by (auto simp: display_inv_def on_load_def Let_def set_legend_display)

lemma on_load_fields [simp]:
  "counties (on_load T fs) = preprocess T fs" "bandWidth (on_load T fs) = Num 2"
  "colorMode (on_load T fs) = ''area''" "mode (on_load T fs) = ''county''"
  "raf_queue (on_load T fs) = []" "activePopup (on_load T fs) = None"
  "open_popups (on_load T fs) = []" "next_popup (on_load T fs) = 0"
  "visibility (on_load T fs) = (\<lambda>l. if l \<in> {''lonband-fill'', ''lonband-borders''} then ''none'' else ''visible'')"
  by (simp_all add: on_load_def Let_def)

subsection \<open>The animation\<close>

lemma frame_min_step:
  "\<forall>a\<in>set (raf_queue s). m \<le> currentStep a \<Longrightarrow> \<forall>a\<in>set (raf_queue (frame s)). Suc m \<le> currentStep a"
  by (auto simp: raf_queue_frame)

lemma frames_min_step:
  "queue_inv s \<Longrightarrow> queue_inv ((frame ^^ k) s) \<and> (\<forall>a\<in>set (raf_queue ((frame ^^ k) s)). Suc k \<le> currentStep a)"
proof (induction k)
  case 0
  then show ?case by (simp add: queue_inv_def)
next
  case (Suc k)
  then show ?case using frame_min_step [of "(frame ^^ k) s" "Suc k"] by (simp add: queue_inv_frame)
qed

lemma frame_single:
  "currentStep a < steps \<Longrightarrow>
   frame (s\<lparr>raf_queue := [a]\<rparr>) =
     s\<lparr>lonbands := createLongitudeBands (counties s) (bandWidth s + stepSize a * Num (real (currentStep a + 1))) (colorMode s),
       raf_queue := [a\<lparr>currentStep := currentStep a + 1\<rparr>]\<rparr>"
  by (simp add: frame_def animate_step_def Let_def)

lemma frame_single_done:
  "steps \<le> currentStep a \<Longrightarrow> frame (s\<lparr>raf_queue := [a]\<rparr>) = s\<lparr>raf_queue := []\<rparr>"
  by (simp add: frame_def animate_step_def)

lemma frames_single:
  "c + k < steps \<Longrightarrow>
   (frame ^^ Suc k) (s\<lparr>raf_queue := [\<lparr>currentStep = c, stepSize = d\<rparr>]\<rparr>) =
     s\<lparr>lonbands := createLongitudeBands (counties s) (bandWidth s + d * Num (real (c + Suc k))) (colorMode s),
       raf_queue := [\<lparr>currentStep = c + Suc k, stepSize = d\<rparr>]\<rparr>"
proof (induction k)
  case 0
  then show ?case by (simp add: frame_single)
next
  case (Suc k)
  then have "(frame ^^ Suc k) (s\<lparr>raf_queue := [\<lparr>currentStep = c, stepSize = d\<rparr>]\<rparr>) =
     s\<lparr>lonbands := createLongitudeBands (counties s) (bandWidth s + d * Num (real (c + Suc k))) (colorMode s),
       raf_queue := [\<lparr>currentStep = c + Suc k, stepSize = d\<rparr>]\<rparr>" by simp
  with Suc.prems show ?case by (simp add: frame_single)
qed

lemma frame_two:
  "currentStep b < steps \<Longrightarrow>
   frame (s\<lparr>raf_queue := [a, b]\<rparr>) =
     s\<lparr>lonbands := createLongitudeBands (counties s) (bandWidth s + stepSize b * Num (real (currentStep b + 1))) (colorMode s),
       raf_queue := (if currentStep a < steps then [a\<lparr>currentStep := currentStep a + 1\<rparr>] else [])
                    @ [b\<lparr>currentStep := currentStep b + 1\<rparr>]\<rparr>"
  by (simp add: frame_def animate_step_def Let_def)

lemma frame_two_done:
  "steps \<le> currentStep a \<Longrightarrow> steps \<le> currentStep b \<Longrightarrow>
   frame (s\<lparr>raf_queue := [a, b]\<rparr>) = s\<lparr>raf_queue := []\<rparr>"
  by (simp add: frame_def animate_step_def)

lemma frames_pair:
  "cb + k < steps \<Longrightarrow>
   (frame ^^ Suc k) (s\<lparr>raf_queue := [\<lparr>currentStep = ca, stepSize = da\<rparr>, \<lparr>currentStep = cb, stepSize = db\<rparr>]\<rparr>) =
     s\<lparr>lonbands := createLongitudeBands (counties s) (bandWidth s + db * Num (real (cb + Suc k))) (colorMode s),
       raf_queue := (if ca + Suc k \<le> steps then [\<lparr>currentStep = ca + Suc k, stepSize = da\<rparr>] else [])
                    @ [\<lparr>currentStep = cb + Suc k, stepSize = db\<rparr>]\<rparr>"
proof (induction k)
  case 0
  then show ?case by (simp add: frame_two)
next
  case (Suc k)
  let ?L = "createLongitudeBands (counties s) (bandWidth s + db * Num (real (cb + Suc k))) (colorMode s)"
  from Suc have ih: "(frame ^^ Suc k) (s\<lparr>raf_queue := [\<lparr>currentStep = ca, stepSize = da\<rparr>, \<lparr>currentStep = cb, stepSize = db\<rparr>]\<rparr>) =
     s\<lparr>lonbands := ?L,
       raf_queue := (if ca + Suc k \<le> steps then [\<lparr>currentStep = ca + Suc k, stepSize = da\<rparr>] else [])
                    @ [\<lparr>currentStep = cb + Suc k, stepSize = db\<rparr>]\<rparr>" by simp
  show ?case
  proof (cases "ca + Suc k \<le> steps")
    case True
    with ih Suc.prems show ?thesis
      using frame_two [where b = "\<lparr>currentStep = cb + Suc k, stepSize = db\<rparr>" and s = "s\<lparr>lonbands := ?L\<rparr>"
                          and a = "\<lparr>currentStep = ca + Suc k, stepSize = da\<rparr>"]
      by simp
  next
    case False
    with ih Suc.prems show ?thesis
      using frame_single [where a = "\<lparr>currentStep = cb + Suc k, stepSize = db\<rparr>" and s = "s\<lparr>lonbands := ?L\<rparr>"]
      by simp
  qed
qed

lemma frames_drain: "queue_inv s \<Longrightarrow> raf_queue ((frame ^^ steps) s) = []"
proof -
  assume "queue_inv s"
  then have inv: "queue_inv ((frame ^^ steps) s)"
    and lo: "\<forall>a\<in>set (raf_queue ((frame ^^ steps) s)). Suc steps \<le> currentStep a"
    using frames_min_step by blast+
  show ?thesis
  proof (rule ccontr)
    assume "raf_queue ((frame ^^ steps) s) \<noteq> []"
    then obtain a where a: "a \<in> set (raf_queue ((frame ^^ steps) s))"
      by (metis list.set_intros(1) neq_Nil_conv)
    with lo have "Suc steps \<le> currentStep a" by blast
    moreover from a inv have "currentStep a \<le> steps" by (auto simp: queue_inv_def)
    ultimately show False by simp
  qed
qed

text \<open>A slider input on a page with no animation pending, followed by the ten
  frames of its animation.\<close>

lemma slider_settles:
  assumes "raf_queue s = []" and "bandWidth s = Num w0"
  shows "(frame ^^ steps) (slider_input (Num w1) s) =
         s\<lparr>band_value_text := to_fixed 1 (Num w1), bandWidth := Num w1,
           lonbands := createLongitudeBands (counties s) (Num (2 * w1 - w0)) (colorMode s)\<rparr>"
proof -
  let ?d = "Num ((w1 - w0) / 10)"
  let ?t = "s\<lparr>band_value_text := to_fixed 1 (Num w1), bandWidth := Num w1,
              lonbands := createLongitudeBands (counties s) (Num (w0 + (w1 - w0) / 10)) (colorMode s)\<rparr>"
  have 1: "slider_input (Num w1) s = ?t\<lparr>raf_queue := [\<lparr>currentStep = 1, stepSize = ?d\<rparr>]\<rparr>"
    using assms by (simp add: slider_input_def animate_step_def steps_def Let_def)
  have 2: "(frame ^^ 9) (?t\<lparr>raf_queue := [\<lparr>currentStep = 1, stepSize = ?d\<rparr>]\<rparr>) =
           ?t\<lparr>lonbands := createLongitudeBands (counties s) (Num w1 + ?d * Num 10) (colorMode s),
              raf_queue := [\<lparr>currentStep = 10, stepSize = ?d\<rparr>]\<rparr>"
    using frames_single [where c = 1 and k = 8 and s = ?t and d = ?d] by (simp add: steps_def)
  have 3: "Num w1 + ?d * Num 10 = Num (2 * w1 - w0)" by simp
  have st: "steps = Suc 9" by (simp add: steps_def)
  have "(frame ^^ steps) (slider_input (Num w1) s) =
             frame ((frame ^^ 9) (?t\<lparr>raf_queue := [\<lparr>currentStep = 1, stepSize = ?d\<rparr>]\<rparr>))"
    by (simp only: 1 st funpow.simps comp_def)
  also have "\<dots> = ?t\<lparr>lonbands := createLongitudeBands (counties s) (Num (2 * w1 - w0)) (colorMode s),
                      raf_queue := []\<rparr>"
    by (simp only: 2 3) (simp add: frame_single_done steps_def)
  finally show ?thesis using assms(1) by simp
qed

text \<open>C10: in every reachable page the layers shown agree with the view mode:
  county layers visible and band layers hidden in county mode, the reverse in band
  mode.\<close>

theorem reachable_view_consistent:
  "reachable T (Ready s) \<Longrightarrow> view_consistent s"
  by (drule reachable_app_inv) (simp add: app_inv_def)

theorem reachable_view_consistent_witness:
  "reachable sample_turf (Ready (toggle_click (on_load sample_turf []))) \<and>
   view_consistent (toggle_click (on_load sample_turf []))"
proof -
  have "reachable sample_turf (page_step sample_turf (page_step sample_turf Loading (LoadOk [])) ToggleClick)"
    by (intro reachable.step reachable.start)
  then have r: "reachable sample_turf (Ready (toggle_click (on_load sample_turf [])))" by simp
  show ?thesis using r reachable_view_consistent [OF r] by simp
qed

text \<open>C11: in every reachable page at most one popup is open, and an open
  popup is the one \<^verbatim>\<open>activePopup\<close> refers to.\<close>

theorem reachable_single_popup:
  "reachable T (Ready s) \<Longrightarrow>
   length (open_popups s) \<le> 1 \<and> (\<forall>p\<in>set (open_popups s). activePopup s = Some (fst p))"
  by (drule reachable_app_inv) (simp add: app_inv_def popup_inv_def)

theorem reachable_single_popup_witness:
  "reachable sample_turf
     (Ready (map_click (Some (derive_county sample_turf (sample_feature 5180000 (-99.4) JNull))) None
               (on_load sample_turf []))) \<and>
   length (open_popups (map_click (Some (derive_county sample_turf (sample_feature 5180000 (-99.4) JNull))) None
               (on_load sample_turf []))) \<le> 1"
proof -
  have "reachable sample_turf
          (page_step sample_turf (page_step sample_turf Loading (LoadOk []))
             (MapClick (Some (derive_county sample_turf (sample_feature 5180000 (-99.4) JNull))) None))"
    by (intro reachable.step reachable.start)
  then have r: "reachable sample_turf
     (Ready (map_click (Some (derive_county sample_turf (sample_feature 5180000 (-99.4) JNull))) None
               (on_load sample_turf [])))" by simp
  show ?thesis using r reachable_single_popup [OF r] by blast
qed

text \<open>C12: the animation always ends: from any reachable page, after
  \<open>steps\<close> (10) animation frames no animation callback is pending.\<close>

theorem animation_terminates:
  "reachable T (Ready s) \<Longrightarrow> raf_queue ((frame ^^ steps) s) = []"
  by (drule reachable_app_inv) (simp add: app_inv_def frames_drain)

theorem animation_terminates_witness:
  "reachable sample_turf (Ready (slider_input (Num 5) (on_load sample_turf []))) \<and>
   raf_queue ((frame ^^ steps) (slider_input (Num 5) (on_load sample_turf []))) = []"
proof -
  have "reachable sample_turf
          (page_step sample_turf (page_step sample_turf Loading (LoadOk [])) (SliderInput ''5''))"
    by (intro reachable.step reachable.start)
  then have r: "reachable sample_turf (Ready (slider_input (Num 5) (on_load sample_turf [])))"
    by (simp add: slider_eval)
  show ?thesis using r animation_terminates [OF r] by simp
qed

text \<open>C13: the slider animation overshoots.  From a page with no animation
  pending and band width \<open>w0\<close>, a slider input \<open>w1\<close> followed by the ten
  animation frames leaves \<^verbatim>\<open>bandWidth = w1\<close> but the band source showing the
  bands of width \<open>2 w1 - w0\<close>: \<^verbatim>\<open>animateStep\<close> adds its increments to the
  global \<^verbatim>\<open>bandWidth\<close>, which the handler has already set to \<open>w1\<close>.\<close>

theorem slider_animation_overshoot:
  assumes "raf_queue s = []" and "bandWidth s = Num w0"
  shows "(frame ^^ steps) (slider_input (Num w1) s) =
         s\<lparr>band_value_text := to_fixed 1 (Num w1), bandWidth := Num w1,
           lonbands := createLongitudeBands (counties s) (Num (2 * w1 - w0)) (colorMode s)\<rparr>"
  using assms by (rule slider_settles)

theorem slider_animation_overshoot_witness:
  "raf_queue (on_load sample_turf []) = [] \<and> bandWidth (on_load sample_turf []) = Num 2 \<and>
   lonbands ((frame ^^ steps) (slider_input (Num 5) (on_load sample_turf []))) =
     createLongitudeBands ([] :: (real \<times> real) county list) (Num 8) ''area''"
proof -
  have q: "raf_queue (on_load sample_turf []) = []" and w: "bandWidth (on_load sample_turf []) = Num 2"
    by simp_all
  show ?thesis
    using slider_animation_overshoot [OF q w, of 5] q w by (simp add: preprocess_def)
qed

text \<open>C14: selecting a colour mode that is none of area, population and
  density, and not a property name of \<^verbatim>\<open>Object.prototype\<close>, logs a
  TypeError from the legend and leaves the legend unchanged, sets both paints to
  undefined (the layer's default colour), and recomputes the bands with the
  area metric.\<close>

theorem select_unknown_mode:
  assumes "v \<notin> {''area'', ''population'', ''density''}" and "v \<notin> set object_prototype_keys"
  shows "errors (select_change v s) = errors s @ [TypeError] \<and>
         legend_html (select_change v s) = legend_html s \<and>
         county_fill_color (select_change v s) = None \<and> band_fill_color (select_change v s) = None \<and>
         lonbands (select_change v s) = createLongitudeBands (counties s) (bandWidth s) ''area''"
proof -
  have "updateLegend v (mode s) = Inl TypeError"
    using assms by (simp add: updateLegend_def legend_stops_def)
  moreover have "createLongitudeBands (counties s) (bandWidth s) v =
                 createLongitudeBands (counties s) (bandWidth s) ''area''"
    using assms by (intro createLongitudeBands_mode_cong band_value_other_mode) auto
  ultimately show ?thesis
    using assms by (simp add: select_change_def set_legend_def countyPaints_def bandPaints_def Let_def)
qed

theorem select_unknown_mode_witness:
  "''Area'' \<notin> {''area'', ''population'', ''density''} \<and> ''Area'' \<notin> set object_prototype_keys \<and>
   errors (select_change ''Area'' (on_load sample_turf [])) = errors (on_load sample_turf []) @ [TypeError]"
  using select_unknown_mode [of "''Area''" "on_load sample_turf []"] by (simp add: object_prototype_keys_def)

text \<open>C15: toggling the view twice restores the view mode and which layers
  are shown.\<close>

theorem toggle_click_twice:
  assumes "view_consistent s"
  shows "mode (toggle_click (toggle_click s)) = mode s \<and>
         visible (toggle_click (toggle_click s)) = visible s"
proof -
  from assms have m: "mode s = ''county'' \<or> mode s = ''band''" by (auto simp: view_consistent_def)
  show ?thesis
  proof (cases "mode s = ''county''")
    case True
    with assms show ?thesis
      by (simp add: toggle_click_view view_consistent_def visible_def fun_eq_iff)
  next
    case False
    with m assms show ?thesis
      by (simp add: toggle_click_view view_consistent_def visible_def fun_eq_iff)
  qed
qed

theorem toggle_click_twice_witness:
  "view_consistent (on_load sample_turf []) \<and>
   mode (toggle_click (toggle_click (on_load sample_turf []))) = mode (on_load sample_turf [])"
proof -
  have v: "view_consistent (on_load sample_turf [])" using app_inv_on_load [of sample_turf "[]"] by (simp add: app_inv_def)
  show ?thesis using v toggle_click_twice [OF v] by simp
qed
text \<open>C16: a second slider input that arrives while an earlier animation
  closure is pending starts a second closure; each frame runs both, the newer one
  writing last, so the newest request decides the final display: the bands of width
  \<open>2 w2 - w1\<close>, with \<open>w1\<close> the width the handler found.  After 10 frames no
  closure is left.\<close>

theorem slider_newest_animation_wins:
  assumes "raf_queue s = [\<lparr>currentStep = ca, stepSize = da\<rparr>]" and "1 \<le> ca" and "bandWidth s = Num w1"
  shows "lonbands ((frame ^^ steps) (slider_input (Num w2) s)) =
           createLongitudeBands (counties s) (Num (2 * w2 - w1)) (colorMode s) \<and>
         raf_queue ((frame ^^ steps) (slider_input (Num w2) s)) = []"
proof -
  let ?d = "Num ((w2 - w1) / 10)"
  let ?t = "s\<lparr>band_value_text := to_fixed 1 (Num w2), bandWidth := Num w2,
              lonbands := createLongitudeBands (counties s) (Num (w1 + (w2 - w1) / 10)) (colorMode s)\<rparr>"
  have 1: "slider_input (Num w2) s =
           ?t\<lparr>raf_queue := [\<lparr>currentStep = ca, stepSize = da\<rparr>, \<lparr>currentStep = 1, stepSize = ?d\<rparr>]\<rparr>"
    using assms by (simp add: slider_input_def animate_step_def steps_def Let_def)
  have 2: "(frame ^^ 9) (?t\<lparr>raf_queue := [\<lparr>currentStep = ca, stepSize = da\<rparr>, \<lparr>currentStep = 1, stepSize = ?d\<rparr>]\<rparr>) =
           ?t\<lparr>lonbands := createLongitudeBands (counties s) (Num w2 + ?d * Num 10) (colorMode s),
              raf_queue := (if ca + 9 \<le> 10 then [\<lparr>currentStep = ca + 9, stepSize = da\<rparr>] else [])
                           @ [\<lparr>currentStep = 10, stepSize = ?d\<rparr>]\<rparr>"
    using frames_pair [where cb = 1 and k = 8 and s = ?t and ca = ca and da = da and db = ?d]
    by (simp add: steps_def)
  have ar: "Num w2 + ?d * Num 10 = Num (2 * w2 - w1)" by simp
  have st: "steps = Suc 9" by (simp add: steps_def)
  have 3: "(frame ^^ steps) (slider_input (Num w2) s) =
           frame ((frame ^^ 9) (?t\<lparr>raf_queue := [\<lparr>currentStep = ca, stepSize = da\<rparr>, \<lparr>currentStep = 1, stepSize = ?d\<rparr>]\<rparr>))"
    by (simp only: 1 st funpow.simps comp_def)
  show ?thesis
  proof (cases "ca + 9 \<le> 10")
    case True
    with assms(2) have ca: "ca = 1" by simp
    show ?thesis unfolding 3 2 ar using ca by (simp add: frame_two_done steps_def)
  next
    case False
    then show ?thesis by (simp only: 3 2 ar) (simp add: frame_single_done steps_def)
  qed
qed

theorem slider_newest_animation_wins_witness:
  "raf_queue (slider_input (Num 5) (on_load sample_turf [])) = [\<lparr>currentStep = 1, stepSize = Num (3 / 10)\<rparr>] \<and>
   (1::nat) \<le> 1 \<and> bandWidth (slider_input (Num 5) (on_load sample_turf [])) = Num 5 \<and>
   lonbands ((frame ^^ steps) (slider_input (Num 8) (slider_input (Num 5) (on_load sample_turf [])))) =
     createLongitudeBands ([] :: (real \<times> real) county list) (Num 11) ''area''"
proof -
  have q: "raf_queue (slider_input (Num 5) (on_load sample_turf [])) = [\<lparr>currentStep = 1, stepSize = Num (3 / 10)\<rparr>]"
    by (simp add: slider_input_def animate_step_def steps_def Let_def)
  have w: "bandWidth (slider_input (Num 5) (on_load (sample_turf :: (real \<times> real) turf) [])) = Num 5"
    by (simp add: slider_input_def animate_step_def Let_def)
  show ?thesis
    using slider_newest_animation_wins [OF q _ w, of 8] q w by (simp add: preprocess_def)
qed


text \<open>C21: the hover listeners lose the pointer cursor when the view goes back
  from bands to counties.  In a reachable band-view page, after the pointer moves
  over a band, the view is toggled and the pointer moves over a county: the county
  layer is shown and under the pointer, but the cursor is \<^verbatim>\<open>""\<close>.  The
  county layer's \<^verbatim>\<open>mouseenter\<close> listener sets \<^verbatim>\<open>"pointer"\<close>, and the band
  layer's \<^verbatim>\<open>mouseleave\<close> listener, registered later, resets it in the same
  move.\<close>

theorem cursor_lost_after_toggle_back:
  assumes "reachable T (Ready s)" and "mode s = ''band''"
  shows "let t = app_step (app_step (app_step s (MouseMove hc True)) ToggleClick) (MouseMove True hb)
         in visible t ''county-fill'' \<and> cursor (hover t) = ''''"
proof -
  have inv: "app_inv s" using assms(1) by (rule reachable_app_inv)
  then have v: "\<not> visible s ''county-fill''" "visible s ''lonband-fill''"
    using assms(2) by (auto simp: app_inv_def view_consistent_def)
  from inv have "hover_inv (hover s)" by (simp add: app_inv_def)
  then obtain a c where ds: "delegates (hover s) = zip hover_listeners [a, a, c, c]"
    using hover_inv_cases by blast
  obtain c0 where e: "hover s = \<lparr>cursor = c0, delegates = zip hover_listeners [a, a, c, c]\<rparr>"
    using ds by (cases "hover s") simp
  let ?s1 = "pointer_move hc True s"
  obtain c1 where h1: "hover ?s1 = \<lparr>cursor = c1, delegates = zip hover_listeners [False, False, True, True]\<rparr>"
    using v by (simp add: e mouse_move_eval)
  let ?s2 = "toggle_click ?s1"
  have v2: "visible ?s2 ''county-fill''" "\<not> visible ?s2 ''lonband-fill''"
    using assms(2) by (simp_all add: visible_def toggle_click_view)
  have "hover (pointer_move True hb ?s2) =
        mouse_move (\<lambda>l. visible ?s2 l \<and> ((l = ''county-fill'' \<and> True) \<or> (l = ''lonband-fill'' \<and> hb)))
          \<lparr>cursor = c1, delegates = zip hover_listeners [False, False, True, True]\<rparr>"
    by (subst pointer_fields(3), subst toggle_click_fields(2), subst h1) (rule refl)
  then have "cursor (hover (pointer_move True hb ?s2)) = ''''"
    by (simp add: mouse_move_eval v2 Let_def)
  moreover have "visible (pointer_move True hb ?s2) ''county-fill''"
    using v2 by (simp add: visible_def)
  ultimately show ?thesis by simp
qed

theorem cursor_lost_after_toggle_back_witness:
  "reachable sample_turf (Ready (toggle_click (on_load sample_turf []))) \<and>
   mode (toggle_click (on_load sample_turf [])) = ''band'' \<and>
   cursor (hover (pointer_move True True (toggle_click (pointer_move True True
     (toggle_click (on_load sample_turf [])))))) = ''''"
proof -
  have "reachable sample_turf (page_step sample_turf (page_step sample_turf Loading (LoadOk [])) ToggleClick)"
    by (intro reachable.step reachable.start)
  then have r: "reachable sample_turf (Ready (toggle_click (on_load sample_turf [])))" by simp
  have m: "mode (toggle_click (on_load sample_turf [])) = ''band''" by (simp add: toggle_click_view)
  show ?thesis
    using r m cursor_lost_after_toggle_back [OF r m, of True True] by (simp add: Let_def)
qed

text \<open>C22: in every reachable page the map agrees with the colour mode: the
  county and band paints are the mode's expressions, the band source holds the
  bands of the current counties for that mode (no band mixes metrics), and,
  when the mode is one the tables know, the legend is the one \<^verbatim>\<open>updateLegend\<close>
  builds for the mode and the current view.\<close>

theorem reachable_display_consistent:
  assumes "reachable T (Ready s)"
  shows "county_fill_color s = countyPaints (colorMode s) \<and> band_fill_color s = bandPaints (colorMode s) \<and>
         (\<exists>w. lonbands s = createLongitudeBands (counties s) w (colorMode s)) \<and>
         (colorMode s \<in> {''area'', ''population'', ''density''} \<longrightarrow>
            updateLegend (colorMode s) (mode s) = Inr (legend_html s))"
proof -
  have "display_inv s"
    using assms by (rule reachable_app_induct) (simp_all add: display_inv_on_load display_inv_step)
  then show ?thesis by (simp add: display_inv_def)
qed

theorem reachable_display_consistent_witness:
  "reachable sample_turf (Ready (select_change ''density'' (on_load sample_turf []))) \<and>
   band_fill_color (select_change ''density'' (on_load sample_turf [])) = bandPaints ''density''"
proof -
  have "reachable sample_turf
          (page_step sample_turf (page_step sample_turf Loading (LoadOk [])) (SelectChange ''density''))"
    by (intro reachable.step reachable.start)
  then have r: "reachable sample_turf (Ready (select_change ''density'' (on_load sample_turf [])))" by simp
  show ?thesis using r reachable_display_consistent [OF r] by simp
qed

end
