(* ===== verification/Spec2Isabelle.thy ===== *)
theory Spec2Isabelle
  imports Controller
begin

text \<open>
  \<^bold>\<open>A verification model of src/script.js\<close>, the county choropleth map
  (mapsmania/uscounties).  The program is one script run in a browser page.
  When the MapLibre map fires its load event it fetches countypops.geojson,
  derives per-county metrics, builds the longitude bands, adds the map
  sources and layers, and registers event listeners.  The listeners are the
  view toggle button, the colour-mode select, the band-width slider with its
  requestAnimationFrame animation, the map clicks that open and close
  popups, and the hover listeners that set the cursor.  All of them share a
  few global variables and the map's state.

  \<^bold>\<open>Theories and what they model.\<close>
  \<^item> Prelude: shared collections (js_simps, band_simps), the
    insertion-ordered association list push_at that models a JavaScript
    object filled key by key, first-occurrence order, and generic list and
    multiset lemmas.
  \<^item> JsNumber: the JavaScript semantics the script relies on.  A Number
    (jsnum) is Num r, NaN, PosInf or NegInf, with +, -, *, / and < instantiated
    as in ECMAScript.  Also Math.floor (js_floor), || on Numbers (js_or),
    parseFloat(x.toFixed(k)) (fixed_round, ties away from zero), Number() on
    JSON scalars (to_number and str_to_number, the full StringToNumber grammar
    but for the Unicode spaces), and the array-index test that orders
    Object.entries (is_array_index).
  \<^item> Preprocess: the forEach loop of the load handler (lines 29-39).
    Records feature_in and county are a feature before and after annotation,
    and derive_county is the loop body.  turf.area and turf.centroid are the
    interface record turf, so every lemma holds for any geometry library.
  \<^item> Bands: createLongitudeBands (lines 42-80).  group_bands is the grouping
    loop over an insertion-ordered object, object_entries is Object.entries,
    band_average the positive-value mean with its || 1 guard, and make_band
    the emitted rectangle.  band_members is the abstract specification of a
    band's members.
    bands_by_key is the reference grouping the loop is proved equal to, and
    linear_ring / ring_area2 state the GeoJSON (RFC 7946) shape of a ring.
  \<^item> Legend: updateLegend (lines 203-225), with toLocaleString on integers
    in the en-US locale (locale_int).  An unknown mode is the TypeError that
    stops.forEach throws.
  \<^item> Format (imports Legend and Preprocess): the number printers and the parser behind the popups:
    Number.prototype.toFixed (to_fixed), en-US toLocaleString with at most k
    fraction digits (locale_fixed), parseFloat (parse_float, the longest
    decimal-literal prefix), ToString of the name (js_to_string), and the
    popup HTML templates (county_popup_html, band_popup_html, lines 163-168
    and 176-180).  Strings are UTF-8 byte strings, as in the source file.
  \<^item> Paint: the map constructor options and attribution control (lines
    1-17: map_init, map_controls), and the paint tables countyPaints and
    bandPaints (lines 83-99) as interpolate expressions (paint_expr) with
    the feature property each reads (county_get, band_get).  A key the
    tables do not have is undefined (None), except the property names of
    Object.prototype (object_prototype_keys), where JavaScript finds an
    inherited value; claims about unknown keys exclude those names.
  \<^item> Hover: the four mouseenter / mouseleave listeners (lines 133-146) as
    data in registration order (hover_listeners), the canvas cursor and one
    mousein flag per listener (record hover).  mouse_move and mouse_out run
    them the way MapLibre's delegated layer listeners do (delegate_move,
    delegate_out, run_delegates, a model of that library's code): on each
    pointer move a listener compares whether its layer has rendered features
    under the pointer with its flag.  The visibility of the layers is a
    parameter, so the theory does not depend on the controller.
  \<^item> Controller: the shared state as the record app, each listener as a
    function (on_load, toggle_click, select_change, slider_input,
    animate_step, show_popup, map_click, popup_close), requestAnimationFrame
    as a queue of animation closures run by Frame events (frame), one browser
    event as app_step, and the page lifecycle Loading / LoadFailed / Ready as
    page_step.  The pages reachable from Loading form the inductive set
    reachable.  Pointer moves and the pointer leaving the canvas
    (pointer_move, pointer_out) run the Hover listeners with the layers'
    current visibility.  popup_html is the HTML a popup shows.  An exception
    a listener does not catch is logged in errors, and its earlier writes
    persist, as in a browser.

  \<^bold>\<open>What is proved.\<close>
  \<^item> Aggregation (C1-C6, C17, C18): the emitted bands refine band_members
    (C1).  The average is the mean of the positive values (C2).
    Object.entries keeps every value exactly once (C3), and C4 gives the band
    order.  An infinite value poisons a band's average (C5), and width 0
    collapses the map into one NaN band (C6).  The grouping loop equals the
    reference grouping bands_by_key (C17).  Every emitted ring is a valid
    GeoJSON linear ring whose doubled signed area is 48 times the width
    (C18), so the ring is clockwise when the width is negative.
  \<^item> Preprocessing (C7, C8, C23): a county of zero area gets density NaN or
    an infinity (C7).  The stored area is within 0.05 square miles of the
    exact value (C8).  The stored area and density are parseFloat of the
    toFixed strings of lines 35 and 38 (C23).
  \<^item> Legend and paints (C9, C19): updateLegend throws exactly on an unknown
    mode (C9).  For each mode the county paint, the band paint and the legend
    use the same stops and colours, and the county paint reads the metric the
    bands average (C19).
  \<^item> Controller (C10-C16, C22): in every reachable page the shown layers
    match the view mode (C10), at most one popup is open (C11), and the
    animation queue drains after 10 frames (C12).  C13 gives the exact state
    after a slider input and its animation.  An unknown select value has the
    effects of C14, and toggling twice restores the view (C15).  When a
    second slider input overlaps a running animation, both closures run each
    frame and the newest request decides the final display (C16).  In every
    reachable page the paints, the band source and the legend agree with the
    colour mode (C22: display_inv, proved for all handlers with the induction
    principle reachable_app_induct).
  \<^item> Hover (C20, C21): after the pointer leaves the map and comes back, the
    cursor is right (C20).  The cursor is lost after switching back from bands
    to counties (C21).
  \<^item> Popups (C24): the band popup of a western band prints a minus sign and
    W.

  \<^bold>\<open>Findings.\<close>  C13: the slider animation overshoots.  animateStep reads
  the global bandWidth, which the handler has already set to the new width,
  so the last frame shows bands of width 2 w1 - w0 while bandWidth is w1.
  With the slider's own values this reaches width -8 (10 then 1), whose
  bands run west from bandStart with clockwise rings (C18), and width 0 (10
  then 5), which collapses the map into one NaN band (C6).  C7: a zero-area
  county gets density NaN or Infinity, not the spec's 0, and Infinity passes
  the v > 0 filter into the average (C5).  C21: the hover listeners share one
  cursor, and the lonband-fill mouseleave listener, registered after the
  county-fill mouseenter listener, resets the cursor in the same move that set
  it.  C24: the band popup reads "-100.0 to -98.0 W" (with degree signs) for
  a band west of Greenwich, a double negative.  Found by modelling but not
  stated as theorems: the spec's worked example puts -98.1 in the band
  starting at -98, but floor(-98.1 / 2) * 2 = -100; Number(..) || 0 keeps
  negative, fractional and infinite populations, against the spec's
  non-negative integer.

  \<^bold>\<open>Abstractions, bounds and fuel.\<close>  Finite Numbers are exact reals: rounding
  to the nearest double, overflow to Infinity, underflow to 0 and the sign of
  zero are not modelled.  No theorem depends on exactness for a yes/no
  outcome: in doubles Math.floor(lon / width) * width can exceed lon (width
  0.3, longitude -124.2), so a county can fall outside its band's interval,
  and a tiny non-zero area underflows to 0 square miles; neither the interval
  nor the finiteness of a non-zero-area density is claimed.  toLocaleString
  prints in the page's default locale; the model fixes en-US.  The string key `${bandStart}` and its parseFloat are the identity
  on Numbers (Number::toString round-trips).  A popup is kept as
  the content it formats, and popup_html gives its HTML.  An event carries
  what the listener reads from the page: SelectChange carries select.value,
  and SliderInput carries slider.value, which the listener reads with
  parseFloat.  MapClick carries the topmost county and band
  feature under the pointer, if any; a hidden layer yields none, so its
  listener does not fire.  MouseMove carries whether a county and a band
  geometry lie under the pointer; only a visible layer has rendered features.
  The animation is bounded by its own constant steps = 10: no fuel is
  needed, and C12 shows that 10 frames are enough.  Paint stops are
  kept as Numbers and colours as strings; how MapLibre interpolates between
  them is the renderer's.  Number::toString of a non-integer and toFixed at
  or above 10^21 print the double's shortest round-trip digits, which exact
  reals do not have: those cases are None.
  Not modelled: the layer styling constants (opacity, line width, dash array)
  passed only to the renderer, the turf algorithms (a parameter), the
  MapLibre renderer beyond the layer-listener dispatch, and the fetch beyond
  its success or failure (LoadOk / LoadFail).
\<close>

end
